theory Spec2Isabelle
  imports Complex_Main "HOL-Library.Sublist"
begin

section \<open>Python values and exceptions\<close>

text \<open>
  The monitor handles decoded JSON: an IPO calendar entry is a Python \<^verbatim>\<open>dict\<close> with string
  keys whose values may be of any JSON type. A dictionary is an association list; a lookup
  takes the first binding of the key. A JSON number with a fraction or an exponent decodes to
  a float: a finite float is the rational number it denotes (Python compares floats and ints
  by their exact values), and the decoder also accepts the three non-finite literals.
\<close>

datatype pyfloat = Finite rat | PosInf | NegInf | NaN

datatype pyval =
    PNone
  | PBool bool
  | PInt int
  | PFloat pyfloat
  | PStr string
  | PList "pyval list"
  | PDict "(string \<times> pyval) list"

text \<open>
  The exceptions the program can meet. \<open>RequestException\<close> stands for every instance of
  \<^verbatim>\<open>requests.exceptions.RequestException\<close> (timeouts, connection errors, HTTP errors raised by
  \<^verbatim>\<open>raise_for_status\<close>); \<open>OtherException\<close> for any other subclass of \<^verbatim>\<open>Exception\<close>.
\<close>

datatype exn =
    TypeError
  | ValueError
  | AttributeError
  | KeyError
  | RequestException string
  | SMTPAuthenticationError
  | OtherException string

text \<open>Truth value testing, as \<^verbatim>\<open>if v:\<close> and \<^verbatim>\<open>v and ...\<close> do it.\<close>

fun truthy :: "pyval \<Rightarrow> bool" where
  "truthy PNone = False"
| "truthy (PBool b) = b"
| "truthy (PInt n) = (n \<noteq> 0)"
| "truthy (PFloat f) = (f \<noteq> Finite 0)"
| "truthy (PStr s) = (s \<noteq> [])"
| "truthy (PList xs) = (xs \<noteq> [])"
| "truthy (PDict d) = (d \<noteq> [])"

fun float_ge_int :: "pyfloat \<Rightarrow> int \<Rightarrow> bool" where
  "float_ge_int (Finite q) n = (of_int n \<le> q)"
| "float_ge_int PosInf n = True"
| "float_ge_int NegInf n = False"
| "float_ge_int NaN n = False"

text \<open>
  \<^verbatim>\<open>v >= n\<close> for an int \<open>n\<close>: numbers compare by value (\<^verbatim>\<open>bool\<close> is a subclass of
  \<^verbatim>\<open>int\<close>); every other type raises \<^verbatim>\<open>TypeError\<close>.
\<close>

fun py_ge_int :: "pyval \<Rightarrow> int \<Rightarrow> exn + bool" where
  "py_ge_int (PInt m) n = Inr (n \<le> m)"
| "py_ge_int (PBool b) n = Inr (n \<le> (if b then 1 else 0))"
| "py_ge_int (PFloat f) n = Inr (float_ge_int f n)"
| "py_ge_int PNone n = Inl TypeError"
| "py_ge_int (PStr s) n = Inl TypeError"
| "py_ge_int (PList xs) n = Inl TypeError"
| "py_ge_int (PDict d) n = Inl TypeError"

text \<open>\<^verbatim>\<open>d.get(k, default)\<close>.\<close>

definition dict_get :: "(string \<times> pyval) list \<Rightarrow> string \<Rightarrow> pyval \<Rightarrow> pyval" where
  "dict_get d k dflt = (case map_of d k of None \<Rightarrow> dflt | Some v \<Rightarrow> v)"

section \<open>The filter\<close>

definition MIN_OFFER_AMOUNT :: int where
  "MIN_OFFER_AMOUNT = 200000000"

text \<open>The record appended for a qualifying entry \<open>ipo\<close> whose value is \<open>total_value\<close>.\<close>

definition qualifying_record :: "(string \<times> pyval) list \<Rightarrow> pyval \<Rightarrow> pyval" where
  "qualifying_record ipo total_value = PDict
     [(''symbol'', dict_get ipo ''symbol'' (PStr ''N/A'')),
      (''name'', dict_get ipo ''name'' (PStr ''N/A'')),
      (''exchange'', dict_get ipo ''exchange'' (PStr ''N/A'')),
      (''price'', dict_get ipo ''price'' (PStr ''N/A'')),
      (''shares'', dict_get ipo ''numberOfShares'' (PStr ''N/A'')),
      (''offer_amount'', total_value),
      (''status'', dict_get ipo ''status'' (PStr ''N/A'')),
      (''date'', dict_get ipo ''date'' (PStr ''N/A''))]"

text \<open>
  The loop of \<^verbatim>\<open>filter_large_ipos\<close>, with the list built so far as accumulator. An element
  that is not a dictionary has no \<^verbatim>\<open>get\<close> method; the test
  \<^verbatim>\<open>total_value and total_value >= MIN_OFFER_AMOUNT\<close> compares only a truthy value.
\<close>

fun filter_loop :: "pyval list \<Rightarrow> pyval list \<Rightarrow> exn + pyval list" where
  "filter_loop [] qualifying_ipos = Inr qualifying_ipos"
| "filter_loop (PDict ipo # rest) qualifying_ipos =
     (let total_value = dict_get ipo ''totalSharesValue'' (PInt 0) in
      if truthy total_value then
        (case py_ge_int total_value MIN_OFFER_AMOUNT of
           Inl e \<Rightarrow> Inl e
         | Inr b \<Rightarrow>
             if b then filter_loop rest (qualifying_ipos @ [qualifying_record ipo total_value])
             else filter_loop rest qualifying_ipos)
      else filter_loop rest qualifying_ipos)"
| "filter_loop (_ # rest) qualifying_ipos = Inl AttributeError"

definition filter_large_ipos :: "pyval list \<Rightarrow> exn + pyval list" where
  "filter_large_ipos ipo_list = filter_loop ipo_list []"

text \<open>The mock calendar of the test script.\<close>

definition MOCK_IPO_DATA :: "pyval list" where
  "MOCK_IPO_DATA =
    [PDict [(''symbol'', PStr ''MEVOU''),
            (''name'', PStr ''M Evo Global Acquisition Corp II''),
            (''exchange'', PStr ''NASDAQ Global''),
            (''price'', PStr ''10.00''),
            (''numberOfShares'', PInt 27000000),
            (''totalSharesValue'', PInt 270000000),
            (''status'', PStr ''expected''),
            (''date'', PStr ''2026-01-30'')],
     PDict [(''symbol'', PStr ''MUZEU''),
            (''name'', PStr ''Muzero Acquisition Corp''),
            (''exchange'', PStr ''NASDAQ Global''),
            (''price'', PStr ''10.00''),
            (''numberOfShares'', PInt 17500000),
            (''totalSharesValue'', PInt 175000000),
            (''status'', PStr ''expected''),
            (''date'', PStr ''2026-01-30'')],
     PDict [(''symbol'', PStr ''TESTIPO''),
            (''name'', PStr ''Test Large IPO Company''),
            (''exchange'', PStr ''NYSE''),
            (''price'', PStr ''25.00''),
            (''numberOfShares'', PInt 20000000),
            (''totalSharesValue'', PInt 500000000),
            (''status'', PStr ''priced''),
            (''date'', PStr ''2026-01-30'')]]"

section \<open>Formatting\<close>

text \<open>Decimal digits of a natural number and \<^verbatim>\<open>str\<close> of an int.\<close>

definition digit_char :: "nat \<Rightarrow> char" where
  "digit_char d = ''0123456789'' ! d"

fun show_nat :: "nat \<Rightarrow> string" where
  "show_nat n =
     (if n < 10 then [digit_char n]
      else show_nat (n div 10) @ [digit_char (n mod 10)])"

declare show_nat.simps [simp del]

definition str_int :: "int \<Rightarrow> string" where
  "str_int n = (if n < 0 then CHR ''-'' # show_nat (nat (- n)) else show_nat (nat n))"

text \<open>
  The format specification \<^verbatim>\<open>,\<close> on an int: a comma between groups of three digits,
  counted from the right. \<open>group3\<close> works on the reversed digits.
\<close>

fun group3 :: "string \<Rightarrow> string" where
  "group3 (a # b # c # d # rest) = a # b # c # CHR '','' # group3 (d # rest)"
| "group3 ds = ds"

definition int_commas :: "int \<Rightarrow> string" where
  "int_commas n =
     (if n < 0 then CHR ''-'' # rev (group3 (rev (show_nat (nat (- n)))))
      else rev (group3 (rev (show_nat (nat n)))))"

text \<open>
  What depends on the interpreter is taken as a parameter: \<open>float_str\<close> is \<^verbatim>\<open>str\<close> of a
  float, \<open>float_commas\<close> is \<^verbatim>\<open>format(x, ',')\<close> of a float, \<open>container_str\<close> is \<^verbatim>\<open>str\<close> of
  a list or a dictionary (which raises when an element cannot be printed), and
  \<open>int_max_str_digits\<close> is the limit on the number of decimal digits in a conversion between
  int and string: 4300 by default since CPython 3.11, and 0 when there is no limit. The
  interpreter accepts no limit between 1 and 639, so the threshold and the lengths of lists,
  which have fewer than 20 digits, are converted without a check.
\<close>

record builtins =
  float_str :: "pyfloat \<Rightarrow> string"
  float_commas :: "pyfloat \<Rightarrow> string"
  container_str :: "pyval \<Rightarrow> exn + string"
  int_max_str_digits :: nat

definition within_digit_limit :: "builtins \<Rightarrow> int \<Rightarrow> bool" where
  "within_digit_limit lib n \<longleftrightarrow>
     int_max_str_digits lib = 0 \<or> length (show_nat (nat \<bar>n\<bar>)) \<le> int_max_str_digits lib"

text \<open>
  A replacement field without a format specification, \<^verbatim>\<open>{v}\<close>, is \<^verbatim>\<open>str(v)\<close>: an int beyond
  the digit limit raises \<^verbatim>\<open>ValueError\<close>.
\<close>

fun py_str :: "builtins \<Rightarrow> pyval \<Rightarrow> exn + string" where
  "py_str lib PNone = Inr ''None''"
| "py_str lib (PBool b) = Inr (if b then ''True'' else ''False'')"
| "py_str lib (PInt n) = (if within_digit_limit lib n then Inr (str_int n) else Inl ValueError)"
| "py_str lib (PFloat f) = Inr (float_str lib f)"
| "py_str lib (PStr s) = Inr s"
| "py_str lib (PList xs) = container_str lib (PList xs)"
| "py_str lib (PDict d) = container_str lib (PDict d)"

text \<open>
  A replacement field \<^verbatim>\<open>{v:,}\<close>. Numbers are grouped (a \<^verbatim>\<open>bool\<close> is formatted as the int
  it is), an int beyond the digit limit raises \<^verbatim>\<open>ValueError\<close>; a string rejects the
  specification with \<^verbatim>\<open>ValueError\<close>; \<^verbatim>\<open>None\<close>, lists and dictionaries accept no format
  specification at all and raise \<^verbatim>\<open>TypeError\<close>.
\<close>

fun py_format_commas :: "builtins \<Rightarrow> pyval \<Rightarrow> exn + string" where
  "py_format_commas lib (PInt n) =
     (if within_digit_limit lib n then Inr (int_commas n) else Inl ValueError)"
| "py_format_commas lib (PBool b) = Inr (int_commas (if b then 1 else 0))"
| "py_format_commas lib (PFloat f) = Inr (float_commas lib f)"
| "py_format_commas lib (PStr s) = Inl ValueError"
| "py_format_commas lib PNone = Inl TypeError"
| "py_format_commas lib (PList xs) = Inl TypeError"
| "py_format_commas lib (PDict d) = Inl TypeError"

text \<open>\<^verbatim>\<open>v[k]\<close> for a string key \<open>k\<close>.\<close>

fun py_getitem :: "pyval \<Rightarrow> string \<Rightarrow> exn + pyval" where
  "py_getitem (PDict d) k = (case map_of d k of None \<Rightarrow> Inl KeyError | Some v \<Rightarrow> Inr v)"
| "py_getitem _ k = Inl TypeError"

text \<open>Sequencing of computations that may raise: the first exception ends the evaluation.\<close>

definition bind_exn :: "exn + 'a \<Rightarrow> ('a \<Rightarrow> exn + 'b) \<Rightarrow> exn + 'b" where
  "bind_exn m f = (case m of Inl e \<Rightarrow> Inl e | Inr x \<Rightarrow> f x)"

text \<open>\<^verbatim>\<open>sep.join(items)\<close>: every item has to be a string.\<close>

fun join_strs :: "string \<Rightarrow> string list \<Rightarrow> string" where
  "join_strs sep [] = []"
| "join_strs sep [x] = x"
| "join_strs sep (x # y # rest) = x @ sep @ join_strs sep (y # rest)"

fun str_items :: "pyval list \<Rightarrow> exn + string list" where
  "str_items [] = Inr []"
| "str_items (PStr s # rest) = bind_exn (str_items rest) (\<lambda>ss. Inr (s # ss))"
| "str_items (_ # rest) = Inl TypeError"

definition py_join :: "string \<Rightarrow> pyval list \<Rightarrow> exn + string" where
  "py_join sep items = bind_exn (str_items items) (\<lambda>ss. Inr (join_strs sep ss))"

section \<open>Dates\<close>

datatype month =
  January | February | March | April | May | June | July | August | September | October
  | November | December

record datetime =
  year :: nat
  month :: month
  day :: nat
  hour :: nat
  minute :: nat
  second :: nat

fun month_name :: "month \<Rightarrow> string" where
  "month_name January = ''January''"
| "month_name February = ''February''"
| "month_name March = ''March''"
| "month_name April = ''April''"
| "month_name May = ''May''"
| "month_name June = ''June''"
| "month_name July = ''July''"
| "month_name August = ''August''"
| "month_name September = ''September''"
| "month_name October = ''October''"
| "month_name November = ''November''"
| "month_name December = ''December''"

fun month_number :: "month \<Rightarrow> nat" where
  "month_number January = 1"
| "month_number February = 2"
| "month_number March = 3"
| "month_number April = 4"
| "month_number May = 5"
| "month_number June = 6"
| "month_number July = 7"
| "month_number August = 8"
| "month_number September = 9"
| "month_number October = 10"
| "month_number November = 11"
| "month_number December = 12"

definition pad2 :: "nat \<Rightarrow> string" where
  "pad2 n = (if n < 10 then CHR ''0'' # show_nat n else show_nat n)"

text \<open>
  The three \<^verbatim>\<open>strftime\<close> formats of the program, in the C locale the interpreter starts in
  (English month names).
\<close>

definition strftime_B_d_Y :: "datetime \<Rightarrow> string" where
  "strftime_B_d_Y t = month_name (month t) @ '' '' @ pad2 (day t) @ '', '' @ show_nat (year t)"

definition strftime_Y_m_d :: "datetime \<Rightarrow> string" where
  "strftime_Y_m_d t =
     show_nat (year t) @ ''-'' @ pad2 (month_number (month t)) @ ''-'' @ pad2 (day t)"

definition strftime_Y_m_d_H_M_S :: "datetime \<Rightarrow> string" where
  "strftime_Y_m_d_H_M_S t =
     strftime_Y_m_d t @ '' '' @ pad2 (hour t) @ '':'' @ pad2 (minute t) @ '':'' @ pad2 (second t)"

section \<open>The report\<close>

text \<open>The document for a day without qualifying entries.\<close>

definition empty_body :: "string \<Rightarrow> string" where
  \<open>empty_body today =
     ''\<newline>'' @
     ''<html>\<newline>'' @
     ''<body>\<newline>'' @
     ''<h2>Daily IPO Monitor - '' @ today @ ''</h2>\<newline>'' @
     ''<p>No U.S. IPOs with offer amounts above $'' @ int_commas MIN_OFFER_AMOUNT @
       '' found for today.</p>\<newline>'' @
     ''<p><em>This is an automated message from your IPO monitoring system.</em></p>\<newline>'' @
     ''</body>\<newline>'' @
     ''</html>\<newline>''\<close>

text \<open>One table row, from the seven formatted fields.\<close>

definition td_open :: string where
  \<open>td_open = ''            <td style="padding: 8px; border: 1px solid #ddd;">''\<close>

definition row_text ::
  "string \<Rightarrow> string \<Rightarrow> string \<Rightarrow> string \<Rightarrow> string \<Rightarrow> string \<Rightarrow> string \<Rightarrow> string" where
  \<open>row_text symbol name exchange price shares offer_amount status =
     ''\<newline>'' @
     ''        <tr>\<newline>'' @
     td_open @ ''<strong>'' @ symbol @ ''</strong></td>\<newline>'' @
     td_open @ name @ ''</td>\<newline>'' @
     td_open @ exchange @ ''</td>\<newline>'' @
     td_open @ ''$'' @ price @ ''</td>\<newline>'' @
     td_open @ shares @ ''</td>\<newline>'' @
     td_open @ ''<strong>$'' @ offer_amount @ ''</strong></td>\<newline>'' @
     td_open @ status @ ''</td>\<newline>'' @
     ''        </tr>\<newline>''\<close>

text \<open>
  The replacement fields of a row are evaluated from left to right: each subscript, then its
  conversion to text. The share count and the offer amount carry the specification \<^verbatim>\<open>,\<close>.
\<close>

definition format_row :: "builtins \<Rightarrow> pyval \<Rightarrow> exn + string" where
  "format_row lib ipo =
     bind_exn (py_getitem ipo ''symbol'') (\<lambda>symbol.
     bind_exn (py_str lib symbol) (\<lambda>symbol_text.
     bind_exn (py_getitem ipo ''name'') (\<lambda>name.
     bind_exn (py_str lib name) (\<lambda>name_text.
     bind_exn (py_getitem ipo ''exchange'') (\<lambda>exchange.
     bind_exn (py_str lib exchange) (\<lambda>exchange_text.
     bind_exn (py_getitem ipo ''price'') (\<lambda>price.
     bind_exn (py_str lib price) (\<lambda>price_text.
     bind_exn (py_getitem ipo ''shares'') (\<lambda>shares.
     bind_exn (py_format_commas lib shares) (\<lambda>shares_text.
     bind_exn (py_getitem ipo ''offer_amount'') (\<lambda>offer_amount.
     bind_exn (py_format_commas lib offer_amount) (\<lambda>offer_amount_text.
     bind_exn (py_getitem ipo ''status'') (\<lambda>status.
     bind_exn (py_str lib status) (\<lambda>status_text.
       Inr (row_text symbol_text name_text exchange_text price_text shares_text
              offer_amount_text status_text)))))))))))))))"

text \<open>The loop that appends one row per entry to \<open>rows\<close>.\<close>

fun rows_loop :: "builtins \<Rightarrow> pyval list \<Rightarrow> string \<Rightarrow> exn + string" where
  "rows_loop lib [] rows = Inr rows"
| "rows_loop lib (ipo # rest) rows =
     bind_exn (format_row lib ipo) (\<lambda>row. rows_loop lib rest (rows @ row))"

text \<open>The list comprehension \<^verbatim>\<open>[ipo['symbol'] for ipo in ipos]\<close>.\<close>

fun symbols_of :: "pyval list \<Rightarrow> exn + pyval list" where
  "symbols_of [] = Inr []"
| "symbols_of (ipo # rest) =
     bind_exn (py_getitem ipo ''symbol'') (\<lambda>symbol.
     bind_exn (symbols_of rest) (\<lambda>symbols. Inr (symbol # symbols)))"

text \<open>The document with the table, in the three parts around the rows and the ticker list.\<close>

definition th_open :: string where
  \<open>th_open = ''            <th style="padding: 10px; border: 1px solid #ddd;">''\<close>

definition populated_head :: "string \<Rightarrow> nat \<Rightarrow> string" where
  \<open>populated_head today count =
     ''\<newline>'' @
     ''<html>\<newline>'' @
     ''<body>\<newline>'' @
     ''<h2>Daily IPO Monitor - '' @ today @ ''</h2>\<newline>'' @
     ''<p>Found <strong>'' @ show_nat count @
       ''</strong> U.S. IPO(s) with offer amounts above $'' @ int_commas MIN_OFFER_AMOUNT @
       '':</p>\<newline>'' @
     ''\<newline>'' @
     ''<table style="border-collapse: collapse; width: 100%; margin-top: 20px;">\<newline>'' @
     ''    <thead>\<newline>'' @
     ''        <tr style="background-color: #4CAF50; color: white;">\<newline>'' @
     th_open @ ''Ticker</th>\<newline>'' @
     th_open @ ''Company Name</th>\<newline>'' @
     th_open @ ''Exchange</th>\<newline>'' @
     th_open @ ''Price</th>\<newline>'' @
     th_open @ ''Shares</th>\<newline>'' @
     th_open @ ''Offer Amount</th>\<newline>'' @
     th_open @ ''Status</th>\<newline>'' @
     ''        </tr>\<newline>'' @
     ''    </thead>\<newline>'' @
     ''    <tbody>\<newline>''\<close>

definition populated_middle :: string where
  \<open>populated_middle =
     ''\<newline>'' @
     ''    </tbody>\<newline>'' @
     ''</table>\<newline>'' @
     ''\<newline>'' @
     ''<p style="margin-top: 20px;"><strong>Summary of Tickers:</strong> ''\<close>

definition populated_tail :: string where
  \<open>populated_tail =
     ''</p>\<newline>'' @
     ''\<newline>'' @
     ''<p style="margin-top: 30px; color: #666;"><em>This is an automated message from your IPO monitoring system.</em></p>\<newline>'' @
     ''</body>\<newline>'' @
     ''</html>\<newline>''\<close>

definition populated_body :: "string \<Rightarrow> nat \<Rightarrow> string \<Rightarrow> string \<Rightarrow> string" where
  "populated_body today count rows tickers =
     populated_head today count @ rows @ populated_middle @ tickers @ populated_tail"

text \<open>
  \<^verbatim>\<open>format_email_body\<close>: the clock is read first; an empty list gives the first template,
  any other list the rows, then the ticker list, then the second template.
\<close>

definition format_email_body :: "builtins \<Rightarrow> datetime \<Rightarrow> pyval list \<Rightarrow> exn + string" where
  "format_email_body lib now ipos =
     (let today = strftime_B_d_Y now in
      if ipos = [] then Inr (empty_body today)
      else
        bind_exn (rows_loop lib ipos []) (\<lambda>rows.
        bind_exn (symbols_of ipos) (\<lambda>symbols.
        bind_exn (py_join '', '' symbols) (\<lambda>tickers.
          Inr (populated_body today (length ipos) rows tickers)))))"

section \<open>The environment of a run\<close>

text \<open>
  The three settings read from the process environment; each is \<^verbatim>\<open>None\<close> when unset.
\<close>

record config =
  FINNHUB_API_KEY :: "string option"
  EMAIL_ADDRESS :: "string option"
  EMAIL_PASSWORD :: "string option"

definition SMTP_SERVER :: string where
  "SMTP_SERVER = ''smtp.gmail.com''"

definition SMTP_PORT :: nat where
  "SMTP_PORT = 587"

text \<open>
  The HTTP library: \<^verbatim>\<open>requests.get\<close> raises (a timeout, a connection or name resolution
  error: each a \<^verbatim>\<open>RequestException\<close>) or gives a response, with its status code, reason and
  URL; \<^verbatim>\<open>json\<close> raises or gives the decoded body. \<^verbatim>\<open>raise_for_status\<close> is the method of the
  library: it raises an \<^verbatim>\<open>HTTPError\<close>, which is a \<^verbatim>\<open>RequestException\<close>, for a status from 400
  to 599, and returns for every other status.
\<close>

record response =
  status_code :: nat
  reason :: string
  url :: string
  json :: "exn + pyval"

definition http_error_msg :: "response \<Rightarrow> string" where
  "http_error_msg r =
     show_nat (status_code r) @
     (if status_code r < 500 then '' Client Error: '' else '' Server Error: '') @
     reason r @ '' for url: '' @ url r"

definition raise_for_status :: "response \<Rightarrow> exn option" where
  "raise_for_status r =
     (if 400 \<le> status_code r \<and> status_code r < 600
      then Some (RequestException (http_error_msg r)) else None)"

text \<open>
  The mail session of \<^verbatim>\<open>send_email\<close>: the message built and the session opened with it.
  The session either goes through or fails, with the relay rejecting the credentials or with
  any other exception, of which only the text is kept.
\<close>

record mail =
  server :: string
  port :: nat
  login_user :: "string option"
  login_password :: "string option"
  msg_from :: "string option"
  msg_to :: "string option"
  msg_subject :: string
  html_part :: string

datatype smtp_failure = AuthenticationFailed | OtherFailure string

record env =
  settings :: config
  pylib :: builtins
  clock :: "nat \<Rightarrow> datetime"
  requests_get :: "string \<Rightarrow> (string \<times> string option) list \<Rightarrow> nat \<Rightarrow> exn + response"
  smtp_session :: "mail \<Rightarrow> smtp_failure option"

text \<open>
  What a run leaves behind: the lines printed and the mail sessions attempted. Printing is
  taken to succeed: the output stream accepts the marks, which are kept as their UTF-8 bytes.
\<close>

record world =
  stdout :: "string list"
  mail_attempts :: "mail list"

definition print :: "string \<Rightarrow> world \<Rightarrow> world" where
  "print line w = w\<lparr>stdout := stdout w @ [line]\<rparr>"

definition str_opt :: "string option \<Rightarrow> string" where
  "str_opt v = (case v of None \<Rightarrow> ''None'' | Some s \<Rightarrow> s)"

definition check_mark :: string where
  "check_mark = [CHR 0xE2, CHR 0x9C, CHR 0x93]"

definition cross_mark :: string where
  "cross_mark = [CHR 0xE2, CHR 0x9C, CHR 0x97]"

definition bullet :: string where
  "bullet = [CHR 0xE2, CHR 0x80, CHR 0xA2]"

section \<open>The fetch\<close>

text \<open>\<^verbatim>\<open>data.get(k, default)\<close> on a decoded body: only a dictionary has the method.\<close>

fun py_get :: "pyval \<Rightarrow> string \<Rightarrow> pyval \<Rightarrow> exn + pyval" where
  "py_get (PDict d) k dflt = Inr (dict_get d k dflt)"
| "py_get _ k dflt = Inl AttributeError"

text \<open>
  The handler of \<^verbatim>\<open>get_todays_ipos\<close>: a \<^verbatim>\<open>RequestException\<close> is printed and becomes the
  empty list, any other exception leaves the function.
\<close>

fun fetch_except :: "exn \<Rightarrow> world \<Rightarrow> (exn + pyval) \<times> world" where
  "fetch_except (RequestException e) w =
     (Inr (PList []), print (''Error fetching IPO data: '' @ e) w)"
| "fetch_except e w = (Inl e, w)"

definition get_todays_ipos :: "env \<Rightarrow> datetime \<Rightarrow> world \<Rightarrow> (exn + pyval) \<times> world" where
  "get_todays_ipos E now w =
     (let today = strftime_Y_m_d now;
          url = ''https://finnhub.io/api/v1/calendar/ipo'';
          params = [(''from'', Some today), (''to'', Some today),
                    (''token'', FINNHUB_API_KEY (settings E))]
      in case requests_get E url params 30 of
           Inl e \<Rightarrow> fetch_except e w
         | Inr response \<Rightarrow>
             (case raise_for_status response of
                Some e \<Rightarrow> fetch_except e w
              | None \<Rightarrow>
                  (case json response of
                     Inl e \<Rightarrow> fetch_except e w
                   | Inr data \<Rightarrow>
                       (case py_get data ''ipoCalendar'' (PList []) of
                          Inl e \<Rightarrow> fetch_except e w
                        | Inr ipos \<Rightarrow> (Inr ipos, w)))))"

section \<open>The mail\<close>

definition send_email :: "env \<Rightarrow> string \<Rightarrow> string \<Rightarrow> world \<Rightarrow> bool \<times> world" where
  "send_email E subject body w =
     (let address = EMAIL_ADDRESS (settings E);
          msg = \<lparr>server = SMTP_SERVER, port = SMTP_PORT, login_user = address,
                 login_password = EMAIL_PASSWORD (settings E), msg_from = address,
                 msg_to = address, msg_subject = subject, html_part = body\<rparr>;
          w1 = w\<lparr>mail_attempts := mail_attempts w @ [msg]\<rparr>
      in case smtp_session E msg of
           None \<Rightarrow>
             (True, print (check_mark @ '' Email sent successfully to '' @ str_opt address) w1)
         | Some AuthenticationFailed \<Rightarrow>
             (False,
              print (''  For Gmail, make sure you're using an App Password, not your regular password.'')
                (print (cross_mark @
                   '' Email authentication failed. Check your email address and password.'') w1))
         | Some (OtherFailure e) \<Rightarrow>
             (False, print (cross_mark @ '' Error sending email: '' @ e) w1))"

section \<open>The run\<close>

text \<open>
  A string is kept as the UTF-8 bytes of its code points, and Python counts and iterates code
  points: \<open>code_points\<close> cuts the bytes before every byte that does not continue a code point.
  The keys of a dictionary are counted once each, in the order of their first binding.
\<close>

definition continuation_byte :: "char \<Rightarrow> bool" where
  "continuation_byte c \<longleftrightarrow> (of_char c :: nat) div 64 = 2"

fun code_points :: "string \<Rightarrow> string list" where
  "code_points [] = []"
| "code_points (c # s) =
     (case code_points s of
        [] \<Rightarrow> [[c]]
      | g # gs \<Rightarrow>
          (case g of
             [] \<Rightarrow> [c] # g # gs
           | b # bs \<Rightarrow> if continuation_byte b then (c # g) # gs else [c] # g # gs))"

fun keys_of :: "(string \<times> pyval) list \<Rightarrow> string list" where
  "keys_of [] = []"
| "keys_of (kv # d) = fst kv # filter (\<lambda>k. k \<noteq> fst kv) (keys_of d)"

text \<open>\<^verbatim>\<open>len(v)\<close> and the iteration \<^verbatim>\<open>for ipo in v\<close> over whatever the fetch returned.\<close>

fun py_len :: "pyval \<Rightarrow> exn + nat" where
  "py_len (PList xs) = Inr (length xs)"
| "py_len (PStr s) = Inr (length (code_points s))"
| "py_len (PDict d) = Inr (length (keys_of d))"
| "py_len _ = Inl TypeError"

fun py_iter :: "pyval \<Rightarrow> exn + pyval list" where
  "py_iter (PList xs) = Inr xs"
| "py_iter (PStr s) = Inr (map PStr (code_points s))"
| "py_iter (PDict d) = Inr (map PStr (keys_of d))"
| "py_iter _ = Inl TypeError"

text \<open>The line printed for one qualifying entry, and the loop printing them.\<close>

definition display_line :: "builtins \<Rightarrow> pyval \<Rightarrow> exn + string" where
  "display_line lib ipo =
     bind_exn (py_getitem ipo ''symbol'') (\<lambda>symbol.
     bind_exn (py_str lib symbol) (\<lambda>symbol_text.
     bind_exn (py_getitem ipo ''name'') (\<lambda>name.
     bind_exn (py_str lib name) (\<lambda>name_text.
     bind_exn (py_getitem ipo ''offer_amount'') (\<lambda>offer_amount.
     bind_exn (py_format_commas lib offer_amount) (\<lambda>offer_amount_text.
       Inr (''  '' @ bullet @ '' '' @ symbol_text @ '' - '' @ name_text @
            '' ($'' @ offer_amount_text @ '')'')))))))"

fun display_loop :: "builtins \<Rightarrow> pyval list \<Rightarrow> world \<Rightarrow> exn option \<times> world" where
  "display_loop lib [] w = (None, w)"
| "display_loop lib (ipo # rest) w =
     (case display_line lib ipo of
        Inl e \<Rightarrow> (Some e, w)
      | Inr line \<Rightarrow> display_loop lib rest (print line w))"

text \<open>
  \<^verbatim>\<open>main\<close>. The clock is read four times: for the banner, in the fetch, for the subject and
  in \<^verbatim>\<open>format_email_body\<close>. An exception that no handler catches leaves \<^verbatim>\<open>main\<close> with
  the lines printed so far.
\<close>

definition main :: "env \<Rightarrow> world \<Rightarrow> (exn + nat) \<times> world" where
  "main E w0 =
     (let w1 = print (replicate 70 CHR ''='') w0;
          w2 = print ''IPO MONITOR - Daily Check'' w1;
          w3 = print (replicate 70 CHR ''='') w2;
          w4 = print (''Date: '' @ strftime_Y_m_d_H_M_S (clock E 0)) w3;
          w5 = print (''Minimum Offer Amount: $'' @ int_commas MIN_OFFER_AMOUNT) w4;
          w6 = print (replicate 70 CHR ''-'') w5;
          w7 = print ''Fetching today's IPO data from Finnhub...'' w6
      in case get_todays_ipos E (clock E 1) w7 of
           (Inl e, w8) \<Rightarrow> (Inl e, w8)
         | (Inr all_ipos, w8) \<Rightarrow>
      (case py_len all_ipos of
           Inl e \<Rightarrow> (Inl e, w8)
         | Inr n_total \<Rightarrow>
      (let w9 = print (check_mark @ '' Found '' @ show_nat n_total @ '' total IPO(s) for today'') w8;
           w10 = print ''Filtering for high-value listings...'' w9
       in case bind_exn (py_iter all_ipos) filter_large_ipos of
            Inl e \<Rightarrow> (Inl e, w10)
          | Inr qualifying_ipos \<Rightarrow>
      (let w11 = print (check_mark @ '' Found '' @ show_nat (length qualifying_ipos) @
                   '' IPO(s) with offer amount > $'' @ int_commas MIN_OFFER_AMOUNT) w10
       in case (if qualifying_ipos \<noteq> []
                then display_loop (pylib E) qualifying_ipos (print ''\<newline>Qualifying IPOs:'' w11)
                else (None, w11)) of
            (Some e, w12) \<Rightarrow> (Inl e, w12)
          | (None, w12) \<Rightarrow>
      (let w13 = print ''\<newline>Preparing email notification...'' w12;
           subject = ''IPO Alert: '' @ show_nat (length qualifying_ipos) @
                     '' Large IPO(s) Today - '' @ strftime_Y_m_d (clock E 2)
       in case format_email_body (pylib E) (clock E 3) qualifying_ipos of
            Inl e \<Rightarrow> (Inl e, w13)
          | Inr body \<Rightarrow>
      (case send_email E subject body w13 of
         (success, w14) \<Rightarrow>
      (let w15 = print (replicate 70 CHR ''-'') w14;
           w16 = (if success
                  then print (check_mark @ '' IPO monitoring completed successfully!'')
                         (print (check_mark @ '' Email sent successfully to '' @
                                 str_opt (EMAIL_ADDRESS (settings E))) w15)
                  else print (cross_mark @ '' IPO monitoring completed with errors.'') w15);
           w17 = print (replicate 70 CHR ''='') w16
       in (Inr (if success then 0 else 1), w17))))))))"

text \<open>
  The script: \<^verbatim>\<open>sys.exit(main())\<close>. The exit status is the value returned, and 1 when an
  exception ends the interpreter.
\<close>

fun exit_status :: "exn + nat \<Rightarrow> nat" where
  "exit_status (Inl e) = 1"
| "exit_status (Inr code) = code"

definition run_script :: "env \<Rightarrow> nat \<times> world" where
  "run_script E =
     (case main E \<lparr>stdout = [], mail_attempts = []\<rparr> of (result, w) \<Rightarrow> (exit_status result, w))"

section \<open>Notions used in the properties\<close>

text \<open>The value the filter reads from an entry, and the record it builds from the entry.\<close>

definition total_value :: "(string \<times> pyval) list \<Rightarrow> pyval" where
  "total_value ipo = dict_get ipo ''totalSharesValue'' (PInt 0)"

definition normalized :: "(string \<times> pyval) list \<Rightarrow> pyval" where
  "normalized ipo = qualifying_record ipo (total_value ipo)"

text \<open>Numbers, and the order among them: \<open>numerically_ge v n\<close> says that \<open>v\<close> is a number
  and at least \<open>n\<close>.\<close>

fun is_number :: "pyval \<Rightarrow> bool" where
  "is_number (PInt m) = True"
| "is_number (PBool b) = True"
| "is_number (PFloat f) = True"
| "is_number _ = False"

fun numerically_ge :: "pyval \<Rightarrow> int \<Rightarrow> bool" where
  "numerically_ge (PInt m) n = (n \<le> m)"
| "numerically_ge (PBool b) n = (n \<le> (if b then 1 else 0))"
| "numerically_ge (PFloat f) n = float_ge_int f n"
| "numerically_ge _ n = False"

definition meets_threshold :: "(string \<times> pyval) list \<Rightarrow> bool" where
  "meets_threshold ipo \<longleftrightarrow>
     truthy (total_value ipo) \<and> numerically_ge (total_value ipo) MIN_OFFER_AMOUNT"

definition numeric_or_falsy :: "(string \<times> pyval) list \<Rightarrow> bool" where
  "numeric_or_falsy ipo \<longleftrightarrow> \<not> truthy (total_value ipo) \<or> is_number (total_value ipo)"

text \<open>
  What \<^verbatim>\<open>format_email_body\<close> needs of a record to render it. The record is a dictionary with
  the seven fields of a row; its symbol is a string (for the ticker list); its share count and
  its offer amount are numbers (for the format specification \<^verbatim>\<open>,\<close>); and every value can be
  converted to text: an int is within the digit limit, a list or a dictionary is one that the
  interpreter prints.
\<close>

fun printable :: "builtins \<Rightarrow> pyval \<Rightarrow> bool" where
  "printable lib (PInt n) = within_digit_limit lib n"
| "printable lib (PList xs) = (case container_str lib (PList xs) of Inl e \<Rightarrow> False | Inr t \<Rightarrow> True)"
| "printable lib (PDict d) = (case container_str lib (PDict d) of Inl e \<Rightarrow> False | Inr t \<Rightarrow> True)"
| "printable lib _ = True"

fun printable_number :: "builtins \<Rightarrow> pyval \<Rightarrow> bool" where
  "printable_number lib (PInt n) = within_digit_limit lib n"
| "printable_number lib (PBool b) = True"
| "printable_number lib (PFloat f) = True"
| "printable_number lib _ = False"

definition has_field :: "builtins \<Rightarrow> (string \<times> pyval) list \<Rightarrow> string \<Rightarrow> bool" where
  "has_field lib d k \<longleftrightarrow> (case map_of d k of None \<Rightarrow> False | Some v \<Rightarrow> printable lib v)"

definition has_number :: "builtins \<Rightarrow> (string \<times> pyval) list \<Rightarrow> string \<Rightarrow> bool" where
  "has_number lib d k \<longleftrightarrow>
     (case map_of d k of None \<Rightarrow> False | Some v \<Rightarrow> printable_number lib v)"

definition has_string :: "(string \<times> pyval) list \<Rightarrow> string \<Rightarrow> bool" where
  "has_string d k \<longleftrightarrow> (case map_of d k of Some (PStr s) \<Rightarrow> True | _ \<Rightarrow> False)"

fun renderable :: "builtins \<Rightarrow> pyval \<Rightarrow> bool" where
  "renderable lib (PDict d) \<longleftrightarrow>
     has_string d ''symbol'' \<and> has_field lib d ''name'' \<and> has_field lib d ''exchange'' \<and>
     has_field lib d ''price'' \<and> has_number lib d ''shares'' \<and>
     has_number lib d ''offer_amount'' \<and> has_field lib d ''status''"
| "renderable lib _ \<longleftrightarrow> False"

text \<open>
  The request \<^verbatim>\<open>get_todays_ipos\<close> makes at time \<open>now\<close>, and what the function returns,
  whatever was printed before.
\<close>

definition ipo_request :: "env \<Rightarrow> datetime \<Rightarrow> exn + response" where
  "ipo_request E now =
     requests_get E ''https://finnhub.io/api/v1/calendar/ipo''
       [(''from'', Some (strftime_Y_m_d now)), (''to'', Some (strftime_Y_m_d now)),
        (''token'', FINNHUB_API_KEY (settings E))] 30"

definition initial_world :: world where
  "initial_world = \<lparr>stdout = [], mail_attempts = []\<rparr>"

definition fetched :: "env \<Rightarrow> exn + pyval" where
  "fetched E = fst (get_todays_ipos E (clock E 1) initial_world)"

text \<open>
  The message \<^verbatim>\<open>send_email\<close> builds from a subject and a body, and the one \<^verbatim>\<open>main\<close>
  hands to it for the qualifying records \<open>q\<close>.
\<close>

definition mail_message :: "env \<Rightarrow> string \<Rightarrow> string \<Rightarrow> mail" where
  "mail_message E subject body =
     \<lparr>server = SMTP_SERVER, port = SMTP_PORT, login_user = EMAIL_ADDRESS (settings E),
      login_password = EMAIL_PASSWORD (settings E), msg_from = EMAIL_ADDRESS (settings E),
      msg_to = EMAIL_ADDRESS (settings E), msg_subject = subject, html_part = body\<rparr>"

definition alert_mail :: "env \<Rightarrow> pyval list \<Rightarrow> string \<Rightarrow> mail" where
  "alert_mail E q body =
     mail_message E
       (''IPO Alert: '' @ show_nat (length q) @ '' Large IPO(s) Today - '' @
        strftime_Y_m_d (clock E 2))
       body"

text \<open>
  The first exception among the lines \<^verbatim>\<open>main\<close> prints for the qualifying records, if any.
\<close>

fun display_error :: "builtins \<Rightarrow> pyval list \<Rightarrow> exn option" where
  "display_error lib [] = None"
| "display_error lib (ipo # rest) =
     (case display_line lib ipo of Inl e \<Rightarrow> Some e | Inr line \<Rightarrow> display_error lib rest)"

text \<open>
  What \<^verbatim>\<open>main\<close> has when it reaches \<^verbatim>\<open>send_email\<close>, the qualifying records and the body,
  or the exception that ends it before: from the fetch, from \<^verbatim>\<open>len\<close>, from the iteration,
  from the filter, from printing the qualifying records or from \<^verbatim>\<open>format_email_body\<close>.
\<close>

definition prepared :: "env \<Rightarrow> exn + pyval list \<times> string" where
  "prepared E =
     bind_exn (fetched E) (\<lambda>all_ipos.
     bind_exn (py_len all_ipos) (\<lambda>n.
     bind_exn (py_iter all_ipos) (\<lambda>ipo_list.
     bind_exn (filter_large_ipos ipo_list) (\<lambda>q.
       case display_error (pylib E) q of
         Some e \<Rightarrow> Inl e
       | None \<Rightarrow>
           bind_exn (format_email_body (pylib E) (clock E 3) q) (\<lambda>body. Inr (q, body))))))"

text \<open>The two lines printed when the relay rejects the credentials.\<close>

definition authentication_guidance :: "string list" where
  "authentication_guidance =
     [cross_mark @ '' Email authentication failed. Check your email address and password.'',
      ''  For Gmail, make sure you're using an App Password, not your regular password.'']"

text \<open>
  Concrete surroundings for the examples: an interpreter with the default digit limit (no
  example prints a float or a container), a time, settings, and environments that differ in
  what the calendar returns and in what the mail relay does.
\<close>

definition example_builtins :: builtins where
  "example_builtins =
     \<lparr>float_str = (\<lambda>f. ''0.0''), float_commas = (\<lambda>f. ''0.0''),
      container_str = (\<lambda>v. Inr ''[]''), int_max_str_digits = 4300\<rparr>"

definition example_time :: datetime where
  "example_time = \<lparr>year = 2026, month = January, day = 30, hour = 9, minute = 0, second = 0\<rparr>"

definition example_settings :: config where
  "example_settings =
     \<lparr>FINNHUB_API_KEY = Some ''key'', EMAIL_ADDRESS = Some ''me@example.com'',
      EMAIL_PASSWORD = Some ''secret''\<rparr>"

definition example_env :: "(exn + response) \<Rightarrow> smtp_failure option \<Rightarrow> env" where
  "example_env reply relay =
     \<lparr>settings = example_settings, pylib = example_builtins, clock = (\<lambda>n. example_time),
      requests_get = (\<lambda>url params timeout. reply), smtp_session = (\<lambda>m. relay)\<rparr>"

definition http_reply :: "nat \<Rightarrow> string \<Rightarrow> exn + pyval \<Rightarrow> exn + response" where
  "http_reply status why body =
     Inr \<lparr>status_code = status, reason = why,
          url = ''https://finnhub.io/api/v1/calendar/ipo'', json = body\<rparr>"

definition calendar_reply :: "pyval list \<Rightarrow> exn + response" where
  "calendar_reply ipos = http_reply 200 ''OK'' (Inr (PDict [(''ipoCalendar'', PList ipos)]))"

section \<open>Properties of the filter\<close>

subsection \<open>The loop on lists of dictionaries\<close>

lemma py_ge_int_number:
  "is_number v \<Longrightarrow> py_ge_int v n = Inr (numerically_ge v n)"
  by (cases v) simp_all

lemma py_ge_int_other:
  "\<not> is_number v \<Longrightarrow> py_ge_int v n = Inl TypeError"
  by (cases v) simp_all

lemma filter_loop_dict:
  "filter_loop (PDict d # rest) acc =
     (if \<not> numeric_or_falsy d then Inl TypeError
      else if meets_threshold d then filter_loop rest (acc @ [normalized d])
      else filter_loop rest acc)"
proof (cases "is_number (total_value d)")
  case True
  then show ?thesis
    by (simp add: total_value_def [symmetric] numeric_or_falsy_def meets_threshold_def
        py_ge_int_number normalized_def Let_def)
next
  case False
  then show ?thesis
    by (simp add: total_value_def [symmetric] numeric_or_falsy_def meets_threshold_def
        py_ge_int_other Let_def)
qed

lemma filter_loop_dicts:
  "filter_loop (map PDict ds) acc =
     (if \<forall>d\<in>set ds. numeric_or_falsy d
      then Inr (acc @ map normalized (filter meets_threshold ds))
      else Inl TypeError)"
proof (induction ds arbitrary: acc)
  case Nil
  show ?case by simp
next
  case (Cons d ds)
  show ?case
    by (simp only: list.map filter_loop_dict Cons.IH) auto
qed

lemma filter_large_ipos_dicts:
  "filter_large_ipos (map PDict ds) =
     (if \<forall>d\<in>set ds. numeric_or_falsy d
      then Inr (map normalized (filter meets_threshold ds))
      else Inl TypeError)"
  unfolding filter_large_ipos_def filter_loop_dicts by simp

lemma filter_loop_all_dicts:
  "filter_loop xs acc = Inr ys \<Longrightarrow> \<exists>ds. xs = map PDict ds"
proof (induction xs arbitrary: acc)
  case Nil
  then show ?case by simp
next
  case (Cons x xs)
  then obtain d where x: "x = PDict d"
    by (cases x) simp_all
  from Cons.prems have "\<exists>acc'. filter_loop xs acc' = Inr ys"
    unfolding x filter_loop_dict by (auto split: if_splits)
  then obtain ds where "xs = map PDict ds"
    using Cons.IH by blast
  then have "x # xs = map PDict (d # ds)"
    using x by simp
  then show ?case by (rule exI)
qed

lemma filter_large_ipos_Inr:
  assumes "filter_large_ipos xs = Inr ys"
  obtains ds where "xs = map PDict ds" and "\<forall>d\<in>set ds. numeric_or_falsy d"
    and "ys = map normalized (filter meets_threshold ds)"
proof -
  from assms obtain ds where xs: "xs = map PDict ds"
    unfolding filter_large_ipos_def using filter_loop_all_dicts by blast
  from assms have "\<forall>d\<in>set ds. numeric_or_falsy d"
    and "ys = map normalized (filter meets_threshold ds)"
    unfolding filter_large_ipos_def xs filter_loop_dicts by (auto split: if_splits)
  with xs that show thesis by blast
qed

lemma total_value_absent:
  "map_of d ''totalSharesValue'' = None \<Longrightarrow> total_value d = PInt 0"
  by (simp add: total_value_def dict_get_def)

lemma total_value_present:
  "map_of d ''totalSharesValue'' = Some v \<Longrightarrow> total_value d = v"
  by (simp add: total_value_def dict_get_def)

lemma numerically_ge_number: "numerically_ge v n \<Longrightarrow> is_number v"
  by (cases v) simp_all

lemma meets_threshold_present:
  assumes "meets_threshold d"
  obtains v where "map_of d ''totalSharesValue'' = Some v" and "total_value d = v"
    and "is_number v" and "numerically_ge v MIN_OFFER_AMOUNT"
proof (cases "map_of d ''totalSharesValue''")
  case None
  then have "total_value d = PInt 0"
    by (rule total_value_absent)
  with assms show thesis
    by (simp add: meets_threshold_def)
next
  case (Some v)
  then have v: "total_value d = v"
    by (rule total_value_present)
  with assms have ge: "numerically_ge v MIN_OFFER_AMOUNT"
    by (simp add: meets_threshold_def)
  then have "is_number v"
    by (rule numerically_ge_number)
  with Some v ge that show thesis by blast
qed

lemma normalized_total_value:
  "normalized d = normalized d' \<Longrightarrow> total_value d = total_value d'"
  by (simp add: normalized_def qualifying_record_def)

lemma normalized_meets:
  "normalized d = normalized d' \<Longrightarrow> meets_threshold d = meets_threshold d'"
  using normalized_total_value [of d d'] by (simp add: meets_threshold_def)

lemma normalized_in_selected:
  assumes "d \<in> set ds"
  shows "normalized d \<in> set (map normalized (filter meets_threshold ds)) \<longleftrightarrow>
         meets_threshold d"
proof
  assume "normalized d \<in> set (map normalized (filter meets_threshold ds))"
  then obtain d' where "meets_threshold d'" and "normalized d = normalized d'"
    by auto
  then show "meets_threshold d"
    using normalized_meets [of d d'] by simp
next
  assume "meets_threshold d"
  with assms have "d \<in> set (filter meets_threshold ds)"
    by simp
  then show "normalized d \<in> set (map normalized (filter meets_threshold ds))"
    by (simp only: set_map) (rule imageI)
qed

lemma normalized_fields:
  "\<exists>f. normalized d = PDict f \<and> total_value f = PInt 0"
  by (simp add: normalized_def qualifying_record_def total_value_def dict_get_def)

lemma normalized_list_fields:
  "\<exists>fs. map normalized ds = map PDict fs \<and> (\<forall>f\<in>set fs. total_value f = PInt 0)"
proof (induction ds)
  case Nil
  show ?case by simp
next
  case (Cons d ds)
  then obtain fs where fs: "map normalized ds = map PDict fs" "\<forall>f\<in>set fs. total_value f = PInt 0"
    by blast
  obtain f where f: "normalized d = PDict f" "total_value f = PInt 0"
    using normalized_fields by blast
  have "map normalized (d # ds) = map PDict (f # fs) \<and> (\<forall>g\<in>set (f # fs). total_value g = PInt 0)"
    using fs f by simp
  then show ?case by (rule exI)
qed

lemma filter_large_ipos_no_value:
  assumes "\<forall>f\<in>set fs. total_value f = PInt 0"
  shows "filter_large_ipos (map PDict fs) = Inr []"
proof -
  have a: "\<forall>f\<in>set fs. numeric_or_falsy f"
    using assms by (simp add: numeric_or_falsy_def)
  have b: "filter meets_threshold fs = []"
    using assms by (simp add: meets_threshold_def filter_empty_conv)
  show ?thesis
    using a b by (simp add: filter_large_ipos_dicts)
qed

lemma filter_large_ipos_append:
  assumes "filter_large_ipos xs = Inr a" and "filter_large_ipos ys = Inr b"
  shows "filter_large_ipos (xs @ ys) = Inr (a @ b)"
proof -
  from assms(1) obtain ds where xs: "xs = map PDict ds" "\<forall>d\<in>set ds. numeric_or_falsy d"
    "a = map normalized (filter meets_threshold ds)"
    by (rule filter_large_ipos_Inr)
  from assms(2) obtain es where ys: "ys = map PDict es" "\<forall>d\<in>set es. numeric_or_falsy d"
    "b = map normalized (filter meets_threshold es)"
    by (rule filter_large_ipos_Inr)
  have "xs @ ys = map PDict (ds @ es)"
    using xs(1) ys(1) by simp
  moreover have "\<forall>d\<in>set (ds @ es). numeric_or_falsy d"
    using xs(2) ys(2) by auto
  ultimately have "filter_large_ipos (xs @ ys) =
      Inr (map normalized (filter meets_threshold (ds @ es)))"
    by (simp add: filter_large_ipos_dicts del: set_append filter_append map_append)
  then show ?thesis
    using xs(3) ys(3) by simp
qed

subsection \<open>What the filter keeps\<close>

text \<open>
  Claim C1, amended. For every list of calendar entries whose \<^verbatim>\<open>totalSharesValue\<close> is absent,
  falsy or a number, \<^verbatim>\<open>filter_large_ipos\<close> returns the normalized records of exactly the
  entries whose value is truthy and numerically at least 200,000,000, in their order: an entry
  is in the output if and only if it meets the threshold; an entry whose value equals the
  threshold is included; an entry whose value is absent or an int below the threshold is
  excluded.
\<close>

theorem filter_large_ipos_selects:
  assumes "\<forall>d\<in>set ds. numeric_or_falsy d"
  shows "\<exists>out. filter_large_ipos (map PDict ds) = Inr out \<and>
           out = map normalized (filter meets_threshold ds) \<and>
           (\<forall>d\<in>set ds.
              (normalized d \<in> set out \<longleftrightarrow> meets_threshold d) \<and>
              (total_value d = PInt MIN_OFFER_AMOUNT \<longrightarrow> normalized d \<in> set out) \<and>
              (map_of d ''totalSharesValue'' = None \<or>
               (\<exists>n<MIN_OFFER_AMOUNT. total_value d = PInt n) \<longrightarrow> normalized d \<notin> set out))"
proof -
  let ?out = "map normalized (filter meets_threshold ds)"
  have run: "filter_large_ipos (map PDict ds) = Inr ?out"
    using assms by (simp add: filter_large_ipos_def filter_loop_dicts)
  have "\<forall>d\<in>set ds.
          (normalized d \<in> set ?out \<longleftrightarrow> meets_threshold d) \<and>
          (total_value d = PInt MIN_OFFER_AMOUNT \<longrightarrow> normalized d \<in> set ?out) \<and>
          (map_of d ''totalSharesValue'' = None \<or>
           (\<exists>n<MIN_OFFER_AMOUNT. total_value d = PInt n) \<longrightarrow> normalized d \<notin> set ?out)"
  proof
    fix d assume d: "d \<in> set ds"
    have iff: "normalized d \<in> set ?out \<longleftrightarrow> meets_threshold d"
      using d by (rule normalized_in_selected)
    have eq: "total_value d = PInt MIN_OFFER_AMOUNT \<longrightarrow> meets_threshold d"
      by (simp add: meets_threshold_def MIN_OFFER_AMOUNT_def)
    have absent: "map_of d ''totalSharesValue'' = None \<longrightarrow> \<not> meets_threshold d"
      by (simp add: meets_threshold_def total_value_absent)
    have below: "(\<exists>n<MIN_OFFER_AMOUNT. total_value d = PInt n) \<longrightarrow> \<not> meets_threshold d"
      by (auto simp: meets_threshold_def)
    show "(normalized d \<in> set ?out \<longleftrightarrow> meets_threshold d) \<and>
          (total_value d = PInt MIN_OFFER_AMOUNT \<longrightarrow> normalized d \<in> set ?out) \<and>
          (map_of d ''totalSharesValue'' = None \<or>
           (\<exists>n<MIN_OFFER_AMOUNT. total_value d = PInt n) \<longrightarrow> normalized d \<notin> set ?out)"
      using iff eq absent below by blast
  qed
  with run show ?thesis by blast
qed

text \<open>
  Claim C1 as stated fails: the first entry meets the threshold, the second has a string as
  value, and the filter raises instead of returning a list with the first.
\<close>

theorem filter_large_ipos_selects_counterexample:
  "meets_threshold [(''totalSharesValue'', PInt 300000000)] \<and>
   filter_large_ipos
     [PDict [(''totalSharesValue'', PInt 300000000)],
      PDict [(''totalSharesValue'', PStr ''TBD'')]] = Inl TypeError"
  by (simp add: meets_threshold_def total_value_def filter_large_ipos_def dict_get_def
      MIN_OFFER_AMOUNT_def Let_def)

text \<open>
  Claim C1, amended, at an entry at the threshold, one below it and one without the field.
\<close>

theorem filter_large_ipos_selects_witness:
  "filter_large_ipos
     (map PDict [[(''totalSharesValue'', PInt 200000000)],
                 [(''totalSharesValue'', PInt 199999999)],
                 [(''symbol'', PStr ''ACME'')]]) =
   Inr [normalized [(''totalSharesValue'', PInt 200000000)]]"
proof -
  have h: "\<forall>d\<in>set [[(''totalSharesValue'', PInt 200000000)],
                 [(''totalSharesValue'', PInt 199999999)],
                 [(''symbol'', PStr ''ACME'')]]. numeric_or_falsy d"
    by (simp add: numeric_or_falsy_def total_value_def dict_get_def)
  from filter_large_ipos_selects [OF h]
  have "filter_large_ipos
     (map PDict [[(''totalSharesValue'', PInt 200000000)],
                 [(''totalSharesValue'', PInt 199999999)],
                 [(''symbol'', PStr ''ACME'')]]) =
     Inr (map normalized (filter meets_threshold
       [[(''totalSharesValue'', PInt 200000000)],
        [(''totalSharesValue'', PInt 199999999)],
        [(''symbol'', PStr ''ACME'')]]))"
    by (elim exE conjE) simp
  then show ?thesis
    by (simp add: meets_threshold_def total_value_def dict_get_def MIN_OFFER_AMOUNT_def)
qed

text \<open>
  Claim C2. On the three mock entries with values 270,000,000, 175,000,000 and 500,000,000 the
  filter returns the records of the first and the third, in that order; and filtering is a scan
  from left to right: the result for a list followed by another is the result for the first
  followed by the result for the second.
\<close>

theorem filter_large_ipos_mock:
  "filter_large_ipos MOCK_IPO_DATA =
     Inr [PDict [(''symbol'', PStr ''MEVOU''),
                 (''name'', PStr ''M Evo Global Acquisition Corp II''),
                 (''exchange'', PStr ''NASDAQ Global''),
                 (''price'', PStr ''10.00''),
                 (''shares'', PInt 27000000),
                 (''offer_amount'', PInt 270000000),
                 (''status'', PStr ''expected''),
                 (''date'', PStr ''2026-01-30'')],
          PDict [(''symbol'', PStr ''TESTIPO''),
                 (''name'', PStr ''Test Large IPO Company''),
                 (''exchange'', PStr ''NYSE''),
                 (''price'', PStr ''25.00''),
                 (''shares'', PInt 20000000),
                 (''offer_amount'', PInt 500000000),
                 (''status'', PStr ''priced''),
                 (''date'', PStr ''2026-01-30'')]] \<and>
   (\<forall>xs ys a b. filter_large_ipos xs = Inr a \<and> filter_large_ipos ys = Inr b \<longrightarrow>
      filter_large_ipos (xs @ ys) = Inr (a @ b))"
proof
  show "filter_large_ipos MOCK_IPO_DATA =
     Inr [PDict [(''symbol'', PStr ''MEVOU''),
                 (''name'', PStr ''M Evo Global Acquisition Corp II''),
                 (''exchange'', PStr ''NASDAQ Global''),
                 (''price'', PStr ''10.00''),
                 (''shares'', PInt 27000000),
                 (''offer_amount'', PInt 270000000),
                 (''status'', PStr ''expected''),
                 (''date'', PStr ''2026-01-30'')],
          PDict [(''symbol'', PStr ''TESTIPO''),
                 (''name'', PStr ''Test Large IPO Company''),
                 (''exchange'', PStr ''NYSE''),
                 (''price'', PStr ''25.00''),
                 (''shares'', PInt 20000000),
                 (''offer_amount'', PInt 500000000),
                 (''status'', PStr ''priced''),
                 (''date'', PStr ''2026-01-30'')]]"
    by (simp add: filter_large_ipos_def MOCK_IPO_DATA_def dict_get_def qualifying_record_def
        MIN_OFFER_AMOUNT_def Let_def)
  show "\<forall>xs ys a b. filter_large_ipos xs = Inr a \<and> filter_large_ipos ys = Inr b \<longrightarrow>
      filter_large_ipos (xs @ ys) = Inr (a @ b)"
    using filter_large_ipos_append by blast
qed

text \<open>Claim C2, the scan, at a qualifying entry followed by one below the threshold.\<close>

theorem filter_large_ipos_mock_witness:
  "filter_large_ipos
     ([PDict [(''totalSharesValue'', PInt 270000000)]] @
      [PDict [(''totalSharesValue'', PInt 175000000)]]) =
   Inr ([PDict [(''symbol'', PStr ''N/A''), (''name'', PStr ''N/A''),
                (''exchange'', PStr ''N/A''), (''price'', PStr ''N/A''),
                (''shares'', PStr ''N/A''), (''offer_amount'', PInt 270000000),
                (''status'', PStr ''N/A''), (''date'', PStr ''N/A'')]] @ [])"
proof -
  have a: "filter_large_ipos [PDict [(''totalSharesValue'', PInt 270000000)]] =
     Inr [PDict [(''symbol'', PStr ''N/A''), (''name'', PStr ''N/A''),
                (''exchange'', PStr ''N/A''), (''price'', PStr ''N/A''),
                (''shares'', PStr ''N/A''), (''offer_amount'', PInt 270000000),
                (''status'', PStr ''N/A''), (''date'', PStr ''N/A'')]]"
    by (simp add: filter_large_ipos_def dict_get_def qualifying_record_def
        MIN_OFFER_AMOUNT_def Let_def)
  have b: "filter_large_ipos [PDict [(''totalSharesValue'', PInt 175000000)]] = Inr []"
    by (simp add: filter_large_ipos_def dict_get_def MIN_OFFER_AMOUNT_def Let_def)
  from filter_large_ipos_mock have "\<forall>xs ys a b.
      filter_large_ipos xs = Inr a \<and> filter_large_ipos ys = Inr b \<longrightarrow>
      filter_large_ipos (xs @ ys) = Inr (a @ b)"
    by (rule conjunct2)
  with a b show ?thesis by blast
qed

text \<open>
  Claim C5. Every record of every output of \<^verbatim>\<open>filter_large_ipos\<close> comes from an entry of the
  input whose \<^verbatim>\<open>totalSharesValue\<close> is present, a number and at least the threshold; the record
  has the eight fields, \<^verbatim>\<open>offer_amount\<close> is that value, and each other field is the entry's
  field, or \<^verbatim>\<open>"N/A"\<close> when the entry has no such field.
\<close>

theorem filter_large_ipos_records:
  assumes "filter_large_ipos xs = Inr ys" and "y \<in> set ys"
  shows "\<exists>d v. PDict d \<in> set xs \<and> map_of d ''totalSharesValue'' = Some v \<and>
           is_number v \<and> numerically_ge v MIN_OFFER_AMOUNT \<and>
           y = PDict
             [(''symbol'', case map_of d ''symbol'' of None \<Rightarrow> PStr ''N/A'' | Some x \<Rightarrow> x),
              (''name'', case map_of d ''name'' of None \<Rightarrow> PStr ''N/A'' | Some x \<Rightarrow> x),
              (''exchange'', case map_of d ''exchange'' of None \<Rightarrow> PStr ''N/A'' | Some x \<Rightarrow> x),
              (''price'', case map_of d ''price'' of None \<Rightarrow> PStr ''N/A'' | Some x \<Rightarrow> x),
              (''shares'',
                 case map_of d ''numberOfShares'' of None \<Rightarrow> PStr ''N/A'' | Some x \<Rightarrow> x),
              (''offer_amount'', v),
              (''status'', case map_of d ''status'' of None \<Rightarrow> PStr ''N/A'' | Some x \<Rightarrow> x),
              (''date'', case map_of d ''date'' of None \<Rightarrow> PStr ''N/A'' | Some x \<Rightarrow> x)]"
proof -
  from assms(1) obtain ds where xs: "xs = map PDict ds"
    and ys: "ys = map normalized (filter meets_threshold ds)"
    by (rule filter_large_ipos_Inr)
  from assms(2) ys obtain d where d: "d \<in> set ds" "meets_threshold d" "y = normalized d"
    by auto
  from d(2) obtain v where v: "map_of d ''totalSharesValue'' = Some v" "total_value d = v"
    "is_number v" "numerically_ge v MIN_OFFER_AMOUNT"
    by (rule meets_threshold_present)
  have mem: "PDict d \<in> set xs"
    using d(1) xs by simp
  have shape: "y = PDict
             [(''symbol'', case map_of d ''symbol'' of None \<Rightarrow> PStr ''N/A'' | Some x \<Rightarrow> x),
              (''name'', case map_of d ''name'' of None \<Rightarrow> PStr ''N/A'' | Some x \<Rightarrow> x),
              (''exchange'', case map_of d ''exchange'' of None \<Rightarrow> PStr ''N/A'' | Some x \<Rightarrow> x),
              (''price'', case map_of d ''price'' of None \<Rightarrow> PStr ''N/A'' | Some x \<Rightarrow> x),
              (''shares'',
                 case map_of d ''numberOfShares'' of None \<Rightarrow> PStr ''N/A'' | Some x \<Rightarrow> x),
              (''offer_amount'', v),
              (''status'', case map_of d ''status'' of None \<Rightarrow> PStr ''N/A'' | Some x \<Rightarrow> x),
              (''date'', case map_of d ''date'' of None \<Rightarrow> PStr ''N/A'' | Some x \<Rightarrow> x)]"
    unfolding d(3) normalized_def v(2) qualifying_record_def dict_get_def ..
  from mem v(1) v(3) v(4) shape show ?thesis by blast
qed

text \<open>Claim C5 at the output for one qualifying entry that has only a symbol.\<close>

theorem filter_large_ipos_records_witness:
  "filter_large_ipos [PDict [(''symbol'', PStr ''ACME''), (''totalSharesValue'', PInt 300000000)]]
     = Inr [PDict [(''symbol'', PStr ''ACME''), (''name'', PStr ''N/A''),
                   (''exchange'', PStr ''N/A''), (''price'', PStr ''N/A''),
                   (''shares'', PStr ''N/A''), (''offer_amount'', PInt 300000000),
                   (''status'', PStr ''N/A''), (''date'', PStr ''N/A'')]] \<and>
   (\<exists>d v. PDict d \<in> set [PDict [(''symbol'', PStr ''ACME''),
                                 (''totalSharesValue'', PInt 300000000)]] \<and>
      map_of d ''totalSharesValue'' = Some v \<and> is_number v \<and>
      numerically_ge v MIN_OFFER_AMOUNT)"
proof -
  have run: "filter_large_ipos
      [PDict [(''symbol'', PStr ''ACME''), (''totalSharesValue'', PInt 300000000)]]
     = Inr [PDict [(''symbol'', PStr ''ACME''), (''name'', PStr ''N/A''),
                   (''exchange'', PStr ''N/A''), (''price'', PStr ''N/A''),
                   (''shares'', PStr ''N/A''), (''offer_amount'', PInt 300000000),
                   (''status'', PStr ''N/A''), (''date'', PStr ''N/A'')]]"
    by (simp add: filter_large_ipos_def dict_get_def qualifying_record_def
        MIN_OFFER_AMOUNT_def Let_def)
  have mem: "PDict [(''symbol'', PStr ''ACME''), (''name'', PStr ''N/A''),
                   (''exchange'', PStr ''N/A''), (''price'', PStr ''N/A''),
                   (''shares'', PStr ''N/A''), (''offer_amount'', PInt 300000000),
                   (''status'', PStr ''N/A''), (''date'', PStr ''N/A'')]
     \<in> set [PDict [(''symbol'', PStr ''ACME''), (''name'', PStr ''N/A''),
                   (''exchange'', PStr ''N/A''), (''price'', PStr ''N/A''),
                   (''shares'', PStr ''N/A''), (''offer_amount'', PInt 300000000),
                   (''status'', PStr ''N/A''), (''date'', PStr ''N/A'')]]"
    by simp
  from filter_large_ipos_records [OF run mem]
  have "\<exists>d v. PDict d \<in> set [PDict [(''symbol'', PStr ''ACME''),
                                 (''totalSharesValue'', PInt 300000000)]] \<and>
      map_of d ''totalSharesValue'' = Some v \<and> is_number v \<and>
      numerically_ge v MIN_OFFER_AMOUNT"
    by (elim exE conjE) (intro exI conjI)
  with run show ?thesis by (rule conjI)
qed

text \<open>
  Claim C8, amended. Whenever \<^verbatim>\<open>filter_large_ipos\<close> returns a list, filtering that list again
  returns the empty list: the records carry the value under \<^verbatim>\<open>offer_amount\<close> and have no
  \<^verbatim>\<open>totalSharesValue\<close>. So the second filtering gives back its input only when that is empty.
\<close>

theorem filter_large_ipos_twice:
  assumes "filter_large_ipos xs = Inr ys"
  shows "filter_large_ipos ys = Inr [] \<and> (filter_large_ipos ys = Inr ys \<longleftrightarrow> ys = [])"
proof -
  from assms obtain ds where ys: "ys = map normalized (filter meets_threshold ds)"
    by (rule filter_large_ipos_Inr)
  obtain fs where fs: "ys = map PDict fs" "\<forall>f\<in>set fs. total_value f = PInt 0"
    unfolding ys using normalized_list_fields by blast
  have "filter_large_ipos ys = Inr []"
    unfolding fs(1) using fs(2) by (rule filter_large_ipos_no_value)
  then show ?thesis by auto
qed

text \<open>
  Claim C8 as stated fails: one qualifying entry is kept by the filter, and filtering the
  result again gives the empty list.
\<close>

theorem filter_large_ipos_twice_counterexample:
  "filter_large_ipos [PDict [(''symbol'', PStr ''ACME''), (''totalSharesValue'', PInt 300000000)]]
     = Inr [PDict [(''symbol'', PStr ''ACME''), (''name'', PStr ''N/A''),
                   (''exchange'', PStr ''N/A''), (''price'', PStr ''N/A''),
                   (''shares'', PStr ''N/A''), (''offer_amount'', PInt 300000000),
                   (''status'', PStr ''N/A''), (''date'', PStr ''N/A'')]] \<and>
   bind_exn
     (filter_large_ipos
        [PDict [(''symbol'', PStr ''ACME''), (''totalSharesValue'', PInt 300000000)]])
     filter_large_ipos = Inr []"
  by (simp add: filter_large_ipos_def bind_exn_def dict_get_def qualifying_record_def
      MIN_OFFER_AMOUNT_def Let_def)

text \<open>Claim C8, amended, at the output for one qualifying entry.\<close>

theorem filter_large_ipos_twice_witness:
  "filter_large_ipos
     [PDict [(''symbol'', PStr ''ACME''), (''name'', PStr ''N/A''),
             (''exchange'', PStr ''N/A''), (''price'', PStr ''N/A''),
             (''shares'', PStr ''N/A''), (''offer_amount'', PInt 300000000),
             (''status'', PStr ''N/A''), (''date'', PStr ''N/A'')]] = Inr []"
proof -
  have run: "filter_large_ipos
      [PDict [(''symbol'', PStr ''ACME''), (''totalSharesValue'', PInt 300000000)]]
     = Inr [PDict [(''symbol'', PStr ''ACME''), (''name'', PStr ''N/A''),
                   (''exchange'', PStr ''N/A''), (''price'', PStr ''N/A''),
                   (''shares'', PStr ''N/A''), (''offer_amount'', PInt 300000000),
                   (''status'', PStr ''N/A''), (''date'', PStr ''N/A'')]]"
    by (simp add: filter_large_ipos_def dict_get_def qualifying_record_def
        MIN_OFFER_AMOUNT_def Let_def)
  from filter_large_ipos_twice [OF run] show ?thesis by (rule conjunct1)
qed

text \<open>
  Claim C10. \<^verbatim>\<open>filter_large_ipos\<close> returns a list exactly for the lists of entries whose
  \<^verbatim>\<open>totalSharesValue\<close> is falsy or a number, and raises \<^verbatim>\<open>TypeError\<close> exactly when some
  entry has a truthy value that is not a number: the comparison of such a value with the
  threshold raises, for example for any non-empty string.
\<close>

theorem filter_large_ipos_raises:
  "(filter_large_ipos (map PDict ds) = Inl TypeError \<longleftrightarrow>
      (\<exists>d\<in>set ds. truthy (total_value d) \<and> \<not> is_number (total_value d))) \<and>
   ((\<exists>out. filter_large_ipos (map PDict ds) = Inr out) \<longleftrightarrow>
      (\<forall>d\<in>set ds. \<not> truthy (total_value d) \<or> is_number (total_value d))) \<and>
   (\<not> is_number v \<longrightarrow> py_ge_int v MIN_OFFER_AMOUNT = Inl TypeError) \<and>
   (s \<noteq> [] \<and> map_of d ''totalSharesValue'' = Some (PStr s) \<longrightarrow>
      filter_large_ipos (PDict d # rest) = Inl TypeError)"
proof -
  have all: "(\<forall>d\<in>set ds. numeric_or_falsy d) \<longleftrightarrow>
      (\<forall>d\<in>set ds. \<not> truthy (total_value d) \<or> is_number (total_value d))"
    by (simp add: numeric_or_falsy_def)
  have a: "filter_large_ipos (map PDict ds) = Inl TypeError \<longleftrightarrow>
      (\<exists>d\<in>set ds. truthy (total_value d) \<and> \<not> is_number (total_value d))"
  proof (cases "\<forall>d\<in>set ds. numeric_or_falsy d")
    case True
    then show ?thesis
      using all by (simp add: filter_large_ipos_dicts)
  next
    case False
    then show ?thesis
      using all by (simp add: filter_large_ipos_dicts)
  qed
  have b: "(\<exists>out. filter_large_ipos (map PDict ds) = Inr out) \<longleftrightarrow>
      (\<forall>d\<in>set ds. \<not> truthy (total_value d) \<or> is_number (total_value d))"
  proof (cases "\<forall>d\<in>set ds. numeric_or_falsy d")
    case True
    then show ?thesis
      using all by (simp add: filter_large_ipos_dicts)
  next
    case False
    then show ?thesis
      using all by (simp add: filter_large_ipos_dicts)
  qed
  have c: "\<not> is_number v \<longrightarrow> py_ge_int v MIN_OFFER_AMOUNT = Inl TypeError"
    by (simp add: py_ge_int_other)
  have d: "s \<noteq> [] \<and> map_of d ''totalSharesValue'' = Some (PStr s) \<longrightarrow>
      filter_large_ipos (PDict d # rest) = Inl TypeError"
  proof
    assume h: "s \<noteq> [] \<and> map_of d ''totalSharesValue'' = Some (PStr s)"
    then have "total_value d = PStr s"
      by (simp add: total_value_present)
    with h have "\<not> numeric_or_falsy d"
      by (simp add: numeric_or_falsy_def)
    then show "filter_large_ipos (PDict d # rest) = Inl TypeError"
      by (simp only: filter_large_ipos_def filter_loop_dict) simp
  qed
  show ?thesis by (rule conjI [OF a conjI [OF b conjI [OF c d]]])
qed

text \<open>Claim C10 at an entry whose value is a non-empty string.\<close>

theorem filter_large_ipos_raises_witness:
  "filter_large_ipos [PDict [(''totalSharesValue'', PStr ''TBD'')]] = Inl TypeError"
proof -
  have h: "''TBD'' \<noteq> [] \<and>
      map_of [(''totalSharesValue'', PStr ''TBD'')] ''totalSharesValue'' = Some (PStr ''TBD'')"
    by simp
  from filter_large_ipos_raises
    [of "[]" PNone "''TBD''" "[(''totalSharesValue'', PStr ''TBD'')]" "[]"]
  have "''TBD'' \<noteq> [] \<and>
      map_of [(''totalSharesValue'', PStr ''TBD'')] ''totalSharesValue'' = Some (PStr ''TBD'')
      \<longrightarrow> filter_large_ipos [PDict [(''totalSharesValue'', PStr ''TBD'')]] = Inl TypeError"
    by (elim conjE)
  with h show ?thesis by (rule rev_mp)
qed

section \<open>Properties of the report\<close>

subsection \<open>The document for a day without qualifying entries\<close>

lemma int_commas_MIN_OFFER_AMOUNT: "int_commas MIN_OFFER_AMOUNT = ''200,000,000''"
  by (simp add: int_commas_def MIN_OFFER_AMOUNT_def show_nat.simps digit_char_def)

lemma digit_char_digit: "d < 10 \<Longrightarrow> digit_char d \<in> set ''0123456789''"
  unfolding digit_char_def by (rule nth_mem) simp

lemma show_nat_digits: "set (show_nat n) \<subseteq> set ''0123456789''"
proof (induction n rule: show_nat.induct)
  case (1 n)
  show ?case
  proof (cases "n < 10")
    case True
    then show ?thesis
      using digit_char_digit [of n] by (subst show_nat.simps) simp
  next
    case False
    have "n mod 10 < 10" by simp
    then have "digit_char (n mod 10) \<in> set ''0123456789''"
      by (rule digit_char_digit)
    with False "1.IH" show ?thesis
      by (subst show_nat.simps) simp
  qed
qed

lemma show_nat_no_lt: "CHR ''<'' \<notin> set (show_nat n)"
  using show_nat_digits [of n] by auto

lemma pad2_no_lt: "CHR ''<'' \<notin> set (pad2 n)"
  by (simp add: pad2_def show_nat_no_lt)

lemma month_name_no_lt: "CHR ''<'' \<notin> set (month_name m)"
  by (cases m) simp_all

lemma strftime_B_d_Y_no_lt: "CHR ''<'' \<notin> set (strftime_B_d_Y t)"
  by (simp add: strftime_B_d_Y_def month_name_no_lt pad2_no_lt show_nat_no_lt)

lemma sublist_skip:
  "c \<notin> set s \<Longrightarrow> sublist (c # p) (s @ t) \<longleftrightarrow> sublist (c # p) t"
  by (induction s) (simp_all add: sublist_Cons_right)

lemma empty_body_literal:
  \<open>empty_body today =
     ''\<newline>'' @
     ''<html>\<newline>'' @
     ''<body>\<newline>'' @
     ''<h2>Daily IPO Monitor - '' @ today @ ''</h2>\<newline>'' @
     ''<p>No U.S. IPOs with offer amounts above $'' @ ''200,000,000'' @
       '' found for today.</p>\<newline>'' @
     ''<p><em>This is an automated message from your IPO monitoring system.</em></p>\<newline>'' @
     ''</body>\<newline>'' @
     ''</html>\<newline>''\<close>
  by (simp add: empty_body_def int_commas_MIN_OFFER_AMOUNT)

lemma empty_body_no_table:
  assumes "CHR ''<'' \<notin> set today"
  shows "\<not> sublist ''<table'' (empty_body today)"
  using sublist_skip [OF assms]
  by (simp add: empty_body_def int_commas_MIN_OFFER_AMOUNT sublist_Cons_right)

text \<open>
  Claim C4. For the empty list \<^verbatim>\<open>format_email_body\<close> returns, whatever the date, the document
  that says that no IPOs above the threshold were found for today: its text is the one below,
  with the date in the heading and the threshold written \<^verbatim>\<open>$200,000,000\<close>, which is the
  threshold with separators. The document contains no table tag. For 30 January 2026 it is
  the text given last.
\<close>

theorem format_email_body_empty:
  \<open>format_email_body lib now [] = Inr
    (''\<newline>'' @
     ''<html>\<newline>'' @
     ''<body>\<newline>'' @
     ''<h2>Daily IPO Monitor - '' @ strftime_B_d_Y now @ ''</h2>\<newline>'' @
     ''<p>No U.S. IPOs with offer amounts above $'' @ ''200,000,000'' @
       '' found for today.</p>\<newline>'' @
     ''<p><em>This is an automated message from your IPO monitoring system.</em></p>\<newline>'' @
     ''</body>\<newline>'' @
     ''</html>\<newline>'') \<and>
   int_commas MIN_OFFER_AMOUNT = ''200,000,000'' \<and>
   (\<exists>doc. format_email_body lib now [] = Inr doc \<and> \<not> sublist ''<table'' doc) \<and>
   format_email_body lib example_time [] = Inr
    (''\<newline>'' @
     ''<html>\<newline>'' @
     ''<body>\<newline>'' @
     ''<h2>Daily IPO Monitor - January 30, 2026</h2>\<newline>'' @
     ''<p>No U.S. IPOs with offer amounts above $200,000,000 found for today.</p>\<newline>'' @
     ''<p><em>This is an automated message from your IPO monitoring system.</em></p>\<newline>'' @
     ''</body>\<newline>'' @
     ''</html>\<newline>'')\<close>
proof (intro conjI)
  show \<open>format_email_body lib now [] = Inr
    (''\<newline>'' @
     ''<html>\<newline>'' @
     ''<body>\<newline>'' @
     ''<h2>Daily IPO Monitor - '' @ strftime_B_d_Y now @ ''</h2>\<newline>'' @
     ''<p>No U.S. IPOs with offer amounts above $'' @ ''200,000,000'' @
       '' found for today.</p>\<newline>'' @
     ''<p><em>This is an automated message from your IPO monitoring system.</em></p>\<newline>'' @
     ''</body>\<newline>'' @
     ''</html>\<newline>'')\<close>
    by (simp add: format_email_body_def empty_body_literal)
  show "int_commas MIN_OFFER_AMOUNT = ''200,000,000''"
    by (rule int_commas_MIN_OFFER_AMOUNT)
  have "format_email_body lib now [] = Inr (empty_body (strftime_B_d_Y now))"
    by (simp add: format_email_body_def)
  moreover have "\<not> sublist ''<table'' (empty_body (strftime_B_d_Y now))"
    using strftime_B_d_Y_no_lt by (rule empty_body_no_table)
  ultimately show "\<exists>doc. format_email_body lib now [] = Inr doc \<and> \<not> sublist ''<table'' doc"
    by blast
  show \<open>format_email_body lib example_time [] = Inr
    (''\<newline>'' @
     ''<html>\<newline>'' @
     ''<body>\<newline>'' @
     ''<h2>Daily IPO Monitor - January 30, 2026</h2>\<newline>'' @
     ''<p>No U.S. IPOs with offer amounts above $200,000,000 found for today.</p>\<newline>'' @
     ''<p><em>This is an automated message from your IPO monitoring system.</em></p>\<newline>'' @
     ''</body>\<newline>'' @
     ''</html>\<newline>'')\<close>
    by (simp add: format_email_body_def empty_body_literal strftime_B_d_Y_def example_time_def
        pad2_def show_nat.simps digit_char_def)
qed

subsection \<open>The document with the table\<close>

lemma bind_exn_Inr_iff:
  "bind_exn m f = Inr y \<longleftrightarrow> (\<exists>x. m = Inr x \<and> f x = Inr y)"
  by (cases m) (simp_all add: bind_exn_def)

lemma bind_exn_Inr [simp]: "bind_exn (Inr x) f = f x"
  by (simp add: bind_exn_def)

lemma bind_exn_Inl [simp]: "bind_exn (Inl e) f = Inl e"
  by (simp add: bind_exn_def)

lemma all_Inr_map:
  "(\<forall>x\<in>set xs. \<exists>y. f x = Inr (g y)) \<longleftrightarrow> (\<exists>ys. map f xs = map (\<lambda>y. Inr (g y)) ys)"
proof (induction xs)
  case Nil
  show ?case by simp
next
  case (Cons x xs)
  show ?case
  proof
    assume a: "\<forall>z\<in>set (x # xs). \<exists>y. f z = Inr (g y)"
    then obtain y where y: "f x = Inr (g y)" by auto
    from a Cons obtain ys where "map f xs = map (\<lambda>y. Inr (g y)) ys" by auto
    with y have "map f (x # xs) = map (\<lambda>y. Inr (g y)) (y # ys)" by simp
    then show "\<exists>ys. map f (x # xs) = map (\<lambda>y. Inr (g y)) ys" by (rule exI)
  next
    assume "\<exists>ys. map f (x # xs) = map (\<lambda>y. Inr (g y)) ys"
    then obtain ys where ys: "map f (x # xs) = map (\<lambda>y. Inr (g y)) ys" by blast
    then obtain y ys' where "ys = y # ys'" by (cases ys) auto
    with ys have "f x = Inr (g y)" and "map f xs = map (\<lambda>y. Inr (g y)) ys'" by auto
    with Cons show "\<forall>z\<in>set (x # xs). \<exists>y. f z = Inr (g y)" by auto
  qed
qed

lemma rows_loop_Inr_iff:
  "rows_loop lib ipos acc = Inr out \<longleftrightarrow>
     (\<exists>rows. map (format_row lib) ipos = map Inr rows \<and> out = acc @ concat rows)"
proof (induction ipos arbitrary: acc)
  case Nil
  show ?case by auto
next
  case (Cons ipo ipos)
  show ?case
  proof (cases "format_row lib ipo")
    case (Inl e)
    then show ?thesis by auto
  next
    case (Inr row)
    have "rows_loop lib (ipo # ipos) acc = Inr out \<longleftrightarrow>
        (\<exists>rows. map (format_row lib) ipos = map Inr rows \<and> out = (acc @ row) @ concat rows)"
      using Inr Cons.IH [of "acc @ row"] by simp
    also have "\<dots> \<longleftrightarrow> (\<exists>rows. map (format_row lib) (ipo # ipos) = map Inr rows \<and>
        out = acc @ concat rows)"
    proof
      assume "\<exists>rows. map (format_row lib) ipos = map Inr rows \<and> out = (acc @ row) @ concat rows"
      then obtain rows where "map (format_row lib) ipos = map Inr rows"
        "out = (acc @ row) @ concat rows" by blast
      with Inr have "map (format_row lib) (ipo # ipos) = map Inr (row # rows) \<and>
        out = acc @ concat (row # rows)" by simp
      then show "\<exists>rows. map (format_row lib) (ipo # ipos) = map Inr rows \<and>
        out = acc @ concat rows" by (rule exI)
    next
      assume "\<exists>rows. map (format_row lib) (ipo # ipos) = map Inr rows \<and> out = acc @ concat rows"
      then obtain rows where rows: "map (format_row lib) (ipo # ipos) = map Inr rows"
        "out = acc @ concat rows" by blast
      then obtain r rows' where c: "rows = r # rows'" by (cases rows) auto
      with rows Inr have "map (format_row lib) ipos = map Inr rows' \<and>
        out = (acc @ row) @ concat rows'" by simp
      then show "\<exists>rows. map (format_row lib) ipos = map Inr rows \<and>
        out = (acc @ row) @ concat rows" by (rule exI)
    qed
    finally show ?thesis .
  qed
qed

lemma symbols_of_Inr_iff:
  "symbols_of ipos = Inr symbols \<longleftrightarrow>
     map (\<lambda>ipo. py_getitem ipo ''symbol'') ipos = map Inr symbols"
proof (induction ipos arbitrary: symbols)
  case Nil
  show ?case by auto
next
  case (Cons ipo ipos)
  show ?case
  proof (cases "py_getitem ipo ''symbol''")
    case (Inl e)
    then show ?thesis by auto
  next
    case (Inr v)
    show ?thesis
    proof (cases symbols)
      case Nil
      then show ?thesis using Inr by (simp add: bind_exn_Inr_iff)
    next
      case (Cons s rest)
      then show ?thesis using Inr Cons.IH [of rest] by (auto simp: bind_exn_Inr_iff)
    qed
  qed
qed

lemma str_items_Inr_iff: "str_items items = Inr ss \<longleftrightarrow> items = map PStr ss"
proof (induction items arbitrary: ss)
  case Nil
  show ?case by auto
next
  case (Cons v items)
  show ?case
  proof (cases ss)
    case Nil
    then show ?thesis by (cases v) (simp_all add: bind_exn_Inr_iff)
  next
    case (Cons s rest)
    then show ?thesis using Cons.IH [of rest] by (cases v) (auto simp: bind_exn_Inr_iff)
  qed
qed

lemma py_join_Inr_iff:
  "py_join sep items = Inr t \<longleftrightarrow> (\<exists>ss. items = map PStr ss \<and> t = join_strs sep ss)"
  by (auto simp: py_join_def bind_exn_Inr_iff str_items_Inr_iff)

lemma format_email_body_Inr_iff:
  assumes "ipos \<noteq> []"
  shows "format_email_body lib now ipos = Inr doc \<longleftrightarrow>
     (\<exists>rows symbols.
        map (format_row lib) ipos = map Inr rows \<and>
        map (\<lambda>ipo. py_getitem ipo ''symbol'') ipos = map (\<lambda>s. Inr (PStr s)) symbols \<and>
        doc = populated_body (strftime_B_d_Y now) (length ipos) (concat rows)
                (join_strs '', '' symbols))"
proof
  assume "format_email_body lib now ipos = Inr doc"
  with assms obtain out vs t where out: "rows_loop lib ipos [] = Inr out"
    and vs: "symbols_of ipos = Inr vs" and t: "py_join '', '' vs = Inr t"
    and doc: "doc = populated_body (strftime_B_d_Y now) (length ipos) out t"
    by (auto simp: format_email_body_def bind_exn_Inr_iff)
  from out obtain rows where rows: "map (format_row lib) ipos = map Inr rows" "out = concat rows"
    by (auto simp: rows_loop_Inr_iff)
  from t obtain symbols where symbols: "vs = map PStr symbols" "t = join_strs '', '' symbols"
    by (auto simp: py_join_Inr_iff)
  from vs symbols(1)
  have "map (\<lambda>ipo. py_getitem ipo ''symbol'') ipos = map (\<lambda>s. Inr (PStr s)) symbols"
    by (simp add: symbols_of_Inr_iff)
  with rows doc symbols(2)
  have "map (format_row lib) ipos = map Inr rows \<and>
        map (\<lambda>ipo. py_getitem ipo ''symbol'') ipos = map (\<lambda>s. Inr (PStr s)) symbols \<and>
        doc = populated_body (strftime_B_d_Y now) (length ipos) (concat rows)
                (join_strs '', '' symbols)"
    by simp
  then show "\<exists>rows symbols.
        map (format_row lib) ipos = map Inr rows \<and>
        map (\<lambda>ipo. py_getitem ipo ''symbol'') ipos = map (\<lambda>s. Inr (PStr s)) symbols \<and>
        doc = populated_body (strftime_B_d_Y now) (length ipos) (concat rows)
                (join_strs '', '' symbols)"
    by blast
next
  assume "\<exists>rows symbols.
        map (format_row lib) ipos = map Inr rows \<and>
        map (\<lambda>ipo. py_getitem ipo ''symbol'') ipos = map (\<lambda>s. Inr (PStr s)) symbols \<and>
        doc = populated_body (strftime_B_d_Y now) (length ipos) (concat rows)
                (join_strs '', '' symbols)"
  then obtain rows symbols where rows: "map (format_row lib) ipos = map Inr rows"
    and symbols: "map (\<lambda>ipo. py_getitem ipo ''symbol'') ipos = map (\<lambda>s. Inr (PStr s)) symbols"
    and doc: "doc = populated_body (strftime_B_d_Y now) (length ipos) (concat rows)
                (join_strs '', '' symbols)"
    by blast
  from rows have a: "rows_loop lib ipos [] = Inr (concat rows)"
    by (simp add: rows_loop_Inr_iff)
  from symbols have b: "symbols_of ipos = Inr (map PStr symbols)"
    by (simp add: symbols_of_Inr_iff)
  have "str_items (map PStr symbols) = Inr symbols"
    by (simp add: str_items_Inr_iff)
  then have c: "py_join '', '' (map PStr symbols) = Inr (join_strs '', '' symbols)"
    by (simp add: py_join_def)
  from assms a b c doc show "format_email_body lib now ipos = Inr doc"
    by (simp add: format_email_body_def)
qed

lemma py_str_Inr_iff: "(\<exists>t. py_str lib v = Inr t) \<longleftrightarrow> printable lib v"
  by (cases v) (auto split: sum.splits)

lemma py_format_commas_Inr_iff:
  "(\<exists>t. py_format_commas lib v = Inr t) \<longleftrightarrow> printable_number lib v"
  by (cases v) simp_all

lemma py_getitem_dict_Inr_iff: "py_getitem (PDict d) k = Inr v \<longleftrightarrow> map_of d k = Some v"
  by (cases "map_of d k") simp_all

lemma has_number_iff:
  "has_number lib d k \<longleftrightarrow> (\<exists>v t. map_of d k = Some v \<and> py_format_commas lib v = Inr t)"
  using py_format_commas_Inr_iff [of lib]
  by (cases "map_of d k") (simp_all add: has_number_def)

lemma has_field_iff:
  "has_field lib d k \<longleftrightarrow> (\<exists>v t. map_of d k = Some v \<and> py_str lib v = Inr t)"
  using py_str_Inr_iff [of lib]
  by (cases "map_of d k") (simp_all add: has_field_def)

lemma has_string_iff: "has_string d k \<longleftrightarrow> (\<exists>s. map_of d k = Some (PStr s))"
  by (auto simp: has_string_def split: option.splits pyval.splits)

lemma format_row_dict:
  "format_row lib (PDict d) = Inr row \<longleftrightarrow>
     (\<exists>symbol_value. map_of d ''symbol'' = Some symbol_value \<and>
      (\<exists>symbol. py_str lib symbol_value = Inr symbol \<and>
      (\<exists>name_value. map_of d ''name'' = Some name_value \<and>
      (\<exists>name. py_str lib name_value = Inr name \<and>
      (\<exists>exchange_value. map_of d ''exchange'' = Some exchange_value \<and>
      (\<exists>exchange. py_str lib exchange_value = Inr exchange \<and>
      (\<exists>price_value. map_of d ''price'' = Some price_value \<and>
      (\<exists>price. py_str lib price_value = Inr price \<and>
      (\<exists>shares_value. map_of d ''shares'' = Some shares_value \<and>
      (\<exists>shares. py_format_commas lib shares_value = Inr shares \<and>
      (\<exists>offer_value. map_of d ''offer_amount'' = Some offer_value \<and>
      (\<exists>offer. py_format_commas lib offer_value = Inr offer \<and>
      (\<exists>status_value. map_of d ''status'' = Some status_value \<and>
      (\<exists>status. py_str lib status_value = Inr status \<and>
         row_text symbol name exchange price shares offer status = row))))))))))))))"
  unfolding format_row_def
  by (simp add: bind_exn_Inr_iff py_getitem_dict_Inr_iff del: py_getitem.simps)

lemma format_row_Inr_iff:
  "(\<exists>row. format_row lib (PDict d) = Inr row) \<longleftrightarrow>
     has_field lib d ''symbol'' \<and> has_field lib d ''name'' \<and> has_field lib d ''exchange'' \<and>
     has_field lib d ''price'' \<and> has_number lib d ''shares'' \<and>
     has_number lib d ''offer_amount'' \<and> has_field lib d ''status''"
  unfolding format_row_dict has_field_iff has_number_iff by blast

lemma renderable_iff:
  "renderable lib ipo \<longleftrightarrow>
     (\<exists>row. format_row lib ipo = Inr row) \<and> (\<exists>s. py_getitem ipo ''symbol'' = Inr (PStr s))"
proof (cases ipo)
  case (PDict d)
  have "has_string d ''symbol'' \<Longrightarrow> has_field lib d ''symbol''"
    by (auto simp: has_string_iff has_field_iff)
  then show ?thesis
    unfolding PDict renderable.simps format_row_Inr_iff py_getitem_dict_Inr_iff
      has_string_iff [symmetric]
    by blast
qed (simp_all add: format_row_def)

lemma format_email_body_returns_iff:
  assumes "ipos \<noteq> []"
  shows "(\<exists>doc. format_email_body lib now ipos = Inr doc) \<longleftrightarrow>
         (\<forall>ipo\<in>set ipos. renderable lib ipo)"
proof -
  have "(\<exists>doc. format_email_body lib now ipos = Inr doc) \<longleftrightarrow>
      (\<exists>rows. map (format_row lib) ipos = map (\<lambda>r. Inr (id r)) rows) \<and>
      (\<exists>symbols. map (\<lambda>ipo. py_getitem ipo ''symbol'') ipos = map (\<lambda>s. Inr (PStr s)) symbols)"
    unfolding format_email_body_Inr_iff [OF assms] by auto
  also have "\<dots> \<longleftrightarrow> (\<forall>ipo\<in>set ipos. \<exists>row. format_row lib ipo = Inr (id row)) \<and>
      (\<forall>ipo\<in>set ipos. \<exists>s. py_getitem ipo ''symbol'' = Inr (PStr s))"
    unfolding all_Inr_map ..
  also have "\<dots> \<longleftrightarrow> (\<forall>ipo\<in>set ipos. renderable lib ipo)"
    unfolding renderable_iff [of lib] by auto
  finally show ?thesis .
qed

lemma row_text_literal:
  \<open>row_text symbol name exchange price shares offer status =
     ''\<newline>'' @
     ''        <tr>\<newline>'' @
     ''            <td style="padding: 8px; border: 1px solid #ddd;">'' @ ''<strong>'' @ symbol @ ''</strong></td>\<newline>'' @
     ''            <td style="padding: 8px; border: 1px solid #ddd;">'' @ name @ ''</td>\<newline>'' @
     ''            <td style="padding: 8px; border: 1px solid #ddd;">'' @ exchange @ ''</td>\<newline>'' @
     ''            <td style="padding: 8px; border: 1px solid #ddd;">'' @ ''$'' @ price @ ''</td>\<newline>'' @
     ''            <td style="padding: 8px; border: 1px solid #ddd;">'' @ shares @ ''</td>\<newline>'' @
     ''            <td style="padding: 8px; border: 1px solid #ddd;">'' @ ''<strong>$'' @ offer @ ''</strong></td>\<newline>'' @
     ''            <td style="padding: 8px; border: 1px solid #ddd;">'' @ status @ ''</td>\<newline>'' @
     ''        </tr>\<newline>''\<close>
  by (simp add: row_text_def td_open_def)

lemma populated_body_literal:
  \<open>populated_body today count rows tickers =
     ''\<newline>'' @
     ''<html>\<newline>'' @
     ''<body>\<newline>'' @
     ''<h2>Daily IPO Monitor - '' @ today @ ''</h2>\<newline>'' @
     ''<p>Found <strong>'' @ show_nat count @
       ''</strong> U.S. IPO(s) with offer amounts above $'' @ ''200,000,000'' @
       '':</p>\<newline>'' @
     ''\<newline>'' @
     ''<table style="border-collapse: collapse; width: 100%; margin-top: 20px;">\<newline>'' @
     ''    <thead>\<newline>'' @
     ''        <tr style="background-color: #4CAF50; color: white;">\<newline>'' @
     ''            <th style="padding: 10px; border: 1px solid #ddd;">'' @ ''Ticker</th>\<newline>'' @
     ''            <th style="padding: 10px; border: 1px solid #ddd;">'' @ ''Company Name</th>\<newline>'' @
     ''            <th style="padding: 10px; border: 1px solid #ddd;">'' @ ''Exchange</th>\<newline>'' @
     ''            <th style="padding: 10px; border: 1px solid #ddd;">'' @ ''Price</th>\<newline>'' @
     ''            <th style="padding: 10px; border: 1px solid #ddd;">'' @ ''Shares</th>\<newline>'' @
     ''            <th style="padding: 10px; border: 1px solid #ddd;">'' @ ''Offer Amount</th>\<newline>'' @
     ''            <th style="padding: 10px; border: 1px solid #ddd;">'' @ ''Status</th>\<newline>'' @
     ''        </tr>\<newline>'' @
     ''    </thead>\<newline>'' @
     ''    <tbody>\<newline>'' @
     rows @
     ''\<newline>'' @
     ''    </tbody>\<newline>'' @
     ''</table>\<newline>'' @
     ''\<newline>'' @
     ''<p style="margin-top: 20px;"><strong>Summary of Tickers:</strong> '' @
     tickers @
     ''</p>\<newline>'' @
     ''\<newline>'' @
     ''<p style="margin-top: 30px; color: #666;"><em>This is an automated message from your IPO monitoring system.</em></p>\<newline>'' @
     ''</body>\<newline>'' @
     ''</html>\<newline>''\<close>
  by (simp add: populated_body_def populated_head_def populated_middle_def populated_tail_def
      th_open_def int_commas_MIN_OFFER_AMOUNT)

lemma format_row_cells:
  assumes "format_row lib ipo = Inr row" and "py_getitem ipo ''symbol'' = Inr (PStr s)"
  shows \<open>
    \<exists>d name_value name exchange_value exchange price_value price shares_value shares
       offer_value offer status_value status.
      ipo = PDict d \<and>
      map_of d ''symbol'' = Some (PStr (s)) \<and>
      map_of d ''name'' = Some name_value \<and> py_str lib name_value = Inr name \<and>
      map_of d ''exchange'' = Some exchange_value \<and>
      py_str lib exchange_value = Inr exchange \<and>
      map_of d ''price'' = Some price_value \<and> py_str lib price_value = Inr price \<and>
      map_of d ''shares'' = Some shares_value \<and>
      py_format_commas lib shares_value = Inr shares \<and>
      map_of d ''offer_amount'' = Some offer_value \<and>
      py_format_commas lib offer_value = Inr offer \<and>
      map_of d ''status'' = Some status_value \<and> py_str lib status_value = Inr status \<and>
      row =
        ''\<newline>'' @
        ''        <tr>\<newline>'' @
        ''            <td style="padding: 8px; border: 1px solid #ddd;">'' @ ''<strong>'' @ s @ ''</strong></td>\<newline>'' @
        ''            <td style="padding: 8px; border: 1px solid #ddd;">'' @ name @ ''</td>\<newline>'' @
        ''            <td style="padding: 8px; border: 1px solid #ddd;">'' @ exchange @ ''</td>\<newline>'' @
        ''            <td style="padding: 8px; border: 1px solid #ddd;">'' @ ''$'' @ price @ ''</td>\<newline>'' @
        ''            <td style="padding: 8px; border: 1px solid #ddd;">'' @ shares @ ''</td>\<newline>'' @
        ''            <td style="padding: 8px; border: 1px solid #ddd;">'' @ ''<strong>$'' @ offer @ ''</strong></td>\<newline>'' @
        ''            <td style="padding: 8px; border: 1px solid #ddd;">'' @ status @ ''</td>\<newline>'' @
        ''        </tr>\<newline>''\<close>
proof -
  from assms(2) obtain d where d: "ipo = PDict d" and s: "map_of d ''symbol'' = Some (PStr s)"
    by (cases ipo) (auto split: option.splits)
  from assms(1) [unfolded d format_row_dict] s
  obtain name_value name exchange_value exchange price_value price shares_value shares
    offer_value offer status_value status
    where f: "map_of d ''name'' = Some name_value" "py_str lib name_value = Inr name"
      "map_of d ''exchange'' = Some exchange_value" "py_str lib exchange_value = Inr exchange"
      "map_of d ''price'' = Some price_value" "py_str lib price_value = Inr price"
      "map_of d ''shares'' = Some shares_value" "py_format_commas lib shares_value = Inr shares"
      "map_of d ''offer_amount'' = Some offer_value" "py_format_commas lib offer_value = Inr offer"
      "map_of d ''status'' = Some status_value" "py_str lib status_value = Inr status"
      and r: "row = row_text s name exchange price shares offer status"
    by auto
  show ?thesis
    using d s f r [unfolded row_text_literal] by blast
qed

lemma join_strs_commas:
  "symbols \<noteq> [] \<Longrightarrow> join_strs sep symbols @ sep = concat (map (\<lambda>s. s @ sep) symbols)"
  by (induction sep symbols rule: join_strs.induct) simp_all

lemma map_Inr_nth:
  assumes "map f xs = map (\<lambda>y. Inr (g y)) ys"
  shows "length ys = length xs \<and> (\<forall>i<length xs. f (xs ! i) = Inr (g (ys ! i)))"
proof -
  from assms have len: "length xs = length ys"
    by (rule map_eq_imp_length_eq)
  have "f (xs ! i) = Inr (g (ys ! i))" if "i < length xs" for i
  proof -
    from that have "f (xs ! i) = map f xs ! i" by simp
    also have "\<dots> = map (\<lambda>y. Inr (g y)) ys ! i" by (simp only: assms)
    also from that len have "\<dots> = Inr (g (ys ! i))" by simp
    finally show ?thesis .
  qed
  with len show ?thesis by simp
qed

text \<open>
  Claim C3, amended. For a non-empty list of records with the seven fields of a row, whose
  symbol is a string, whose share count and offer amount are numbers and whose values the
  interpreter can convert to text, \<^verbatim>\<open>format_email_body\<close> returns a document. Every
  document it returns for a non-empty list is the text below: the heading with the date, the
  count of the records, the head of the table, one row per record in the order of the list
  with the texts of its fields, and after the table the symbols in that order, separated by a
  comma and a space. For the records of the first and third mock entries on 30 January 2026 it
  is the text given last.
\<close>

theorem format_email_body_populated:
  \<open>(ipos \<noteq> [] \<longrightarrow>
      ((\<forall>ipo\<in>set ipos. renderable lib ipo) \<longrightarrow>
         (\<exists>doc. format_email_body lib now ipos = Inr doc)) \<and>
      (\<forall>doc. format_email_body lib now ipos = Inr doc \<longrightarrow>
         (
          \<exists>rows symbols tickers.
            length rows = length ipos \<and> length symbols = length ipos \<and>
            (\<forall>i<length ipos.
               \<exists>d name_value name exchange_value exchange price_value price shares_value shares
                  offer_value offer status_value status.
                 ipos ! i = PDict d \<and>
                 map_of d ''symbol'' = Some (PStr (symbols ! i)) \<and>
                 map_of d ''name'' = Some name_value \<and> py_str lib name_value = Inr name \<and>
                 map_of d ''exchange'' = Some exchange_value \<and>
                 py_str lib exchange_value = Inr exchange \<and>
                 map_of d ''price'' = Some price_value \<and> py_str lib price_value = Inr price \<and>
                 map_of d ''shares'' = Some shares_value \<and>
                 py_format_commas lib shares_value = Inr shares \<and>
                 map_of d ''offer_amount'' = Some offer_value \<and>
                 py_format_commas lib offer_value = Inr offer \<and>
                 map_of d ''status'' = Some status_value \<and> py_str lib status_value = Inr status \<and>
                 rows ! i =
                   ''\<newline>'' @
                   ''        <tr>\<newline>'' @
                   ''            <td style="padding: 8px; border: 1px solid #ddd;">'' @ ''<strong>'' @ (symbols ! i) @ ''</strong></td>\<newline>'' @
                   ''            <td style="padding: 8px; border: 1px solid #ddd;">'' @ name @ ''</td>\<newline>'' @
                   ''            <td style="padding: 8px; border: 1px solid #ddd;">'' @ exchange @ ''</td>\<newline>'' @
                   ''            <td style="padding: 8px; border: 1px solid #ddd;">'' @ ''$'' @ price @ ''</td>\<newline>'' @
                   ''            <td style="padding: 8px; border: 1px solid #ddd;">'' @ shares @ ''</td>\<newline>'' @
                   ''            <td style="padding: 8px; border: 1px solid #ddd;">'' @ ''<strong>$'' @ offer @ ''</strong></td>\<newline>'' @
                   ''            <td style="padding: 8px; border: 1px solid #ddd;">'' @ status @ ''</td>\<newline>'' @
                   ''        </tr>\<newline>'') \<and>
            tickers @ '', '' = concat (map (\<lambda>s. s @ '', '') symbols) \<and>
            doc =
              ''\<newline>'' @
              ''<html>\<newline>'' @
              ''<body>\<newline>'' @
              ''<h2>Daily IPO Monitor - '' @ strftime_B_d_Y now @ ''</h2>\<newline>'' @
              ''<p>Found <strong>'' @ show_nat (length ipos) @
                ''</strong> U.S. IPO(s) with offer amounts above $'' @ ''200,000,000'' @
                '':</p>\<newline>'' @
              ''\<newline>'' @
              ''<table style="border-collapse: collapse; width: 100%; margin-top: 20px;">\<newline>'' @
              ''    <thead>\<newline>'' @
              ''        <tr style="background-color: #4CAF50; color: white;">\<newline>'' @
              ''            <th style="padding: 10px; border: 1px solid #ddd;">'' @ ''Ticker</th>\<newline>'' @
              ''            <th style="padding: 10px; border: 1px solid #ddd;">'' @ ''Company Name</th>\<newline>'' @
              ''            <th style="padding: 10px; border: 1px solid #ddd;">'' @ ''Exchange</th>\<newline>'' @
              ''            <th style="padding: 10px; border: 1px solid #ddd;">'' @ ''Price</th>\<newline>'' @
              ''            <th style="padding: 10px; border: 1px solid #ddd;">'' @ ''Shares</th>\<newline>'' @
              ''            <th style="padding: 10px; border: 1px solid #ddd;">'' @ ''Offer Amount</th>\<newline>'' @
              ''            <th style="padding: 10px; border: 1px solid #ddd;">'' @ ''Status</th>\<newline>'' @
              ''        </tr>\<newline>'' @
              ''    </thead>\<newline>'' @
              ''    <tbody>\<newline>'' @
              concat rows @
              ''\<newline>'' @
              ''    </tbody>\<newline>'' @
              ''</table>\<newline>'' @
              ''\<newline>'' @
              ''<p style="margin-top: 20px;"><strong>Summary of Tickers:</strong> '' @
              tickers @
              ''</p>\<newline>'' @
              ''\<newline>'' @
              ''<p style="margin-top: 30px; color: #666;"><em>This is an automated message from your IPO monitoring system.</em></p>\<newline>'' @
              ''</body>\<newline>'' @
              ''</html>\<newline>''))) \<and>
   format_email_body example_builtins example_time
     [PDict [(''symbol'', PStr ''MEVOU''),
             (''name'', PStr ''M Evo Global Acquisition Corp II''),
             (''exchange'', PStr ''NASDAQ Global''),
             (''price'', PStr ''10.00''),
             (''shares'', PInt 27000000),
             (''offer_amount'', PInt 270000000),
             (''status'', PStr ''expected''),
             (''date'', PStr ''2026-01-30'')],
      PDict [(''symbol'', PStr ''TESTIPO''),
             (''name'', PStr ''Test Large IPO Company''),
             (''exchange'', PStr ''NYSE''),
             (''price'', PStr ''25.00''),
             (''shares'', PInt 20000000),
             (''offer_amount'', PInt 500000000),
             (''status'', PStr ''priced''),
             (''date'', PStr ''2026-01-30'')]] = Inr
    (''\<newline>'' @
     ''<html>\<newline>'' @
     ''<body>\<newline>'' @
     ''<h2>Daily IPO Monitor - January 30, 2026</h2>\<newline>'' @
     ''<p>Found <strong>2</strong> U.S. IPO(s) with offer amounts above $200,000,000:</p>\<newline>'' @
     ''\<newline>'' @
     ''<table style="border-collapse: collapse; width: 100%; margin-top: 20px;">\<newline>'' @
     ''    <thead>\<newline>'' @
     ''        <tr style="background-color: #4CAF50; color: white;">\<newline>'' @
     ''            <th style="padding: 10px; border: 1px solid #ddd;">Ticker</th>\<newline>'' @
     ''            <th style="padding: 10px; border: 1px solid #ddd;">Company Name</th>\<newline>'' @
     ''            <th style="padding: 10px; border: 1px solid #ddd;">Exchange</th>\<newline>'' @
     ''            <th style="padding: 10px; border: 1px solid #ddd;">Price</th>\<newline>'' @
     ''            <th style="padding: 10px; border: 1px solid #ddd;">Shares</th>\<newline>'' @
     ''            <th style="padding: 10px; border: 1px solid #ddd;">Offer Amount</th>\<newline>'' @
     ''            <th style="padding: 10px; border: 1px solid #ddd;">Status</th>\<newline>'' @
     ''        </tr>\<newline>'' @
     ''    </thead>\<newline>'' @
     ''    <tbody>\<newline>'' @
     ''\<newline>'' @
     ''        <tr>\<newline>'' @
     ''            <td style="padding: 8px; border: 1px solid #ddd;"><strong>MEVOU</strong></td>\<newline>'' @
     ''            <td style="padding: 8px; border: 1px solid #ddd;">M Evo Global Acquisition Corp II</td>\<newline>'' @
     ''            <td style="padding: 8px; border: 1px solid #ddd;">NASDAQ Global</td>\<newline>'' @
     ''            <td style="padding: 8px; border: 1px solid #ddd;">$10.00</td>\<newline>'' @
     ''            <td style="padding: 8px; border: 1px solid #ddd;">27,000,000</td>\<newline>'' @
     ''            <td style="padding: 8px; border: 1px solid #ddd;"><strong>$270,000,000</strong></td>\<newline>'' @
     ''            <td style="padding: 8px; border: 1px solid #ddd;">expected</td>\<newline>'' @
     ''        </tr>\<newline>'' @
     ''\<newline>'' @
     ''        <tr>\<newline>'' @
     ''            <td style="padding: 8px; border: 1px solid #ddd;"><strong>TESTIPO</strong></td>\<newline>'' @
     ''            <td style="padding: 8px; border: 1px solid #ddd;">Test Large IPO Company</td>\<newline>'' @
     ''            <td style="padding: 8px; border: 1px solid #ddd;">NYSE</td>\<newline>'' @
     ''            <td style="padding: 8px; border: 1px solid #ddd;">$25.00</td>\<newline>'' @
     ''            <td style="padding: 8px; border: 1px solid #ddd;">20,000,000</td>\<newline>'' @
     ''            <td style="padding: 8px; border: 1px solid #ddd;"><strong>$500,000,000</strong></td>\<newline>'' @
     ''            <td style="padding: 8px; border: 1px solid #ddd;">priced</td>\<newline>'' @
     ''        </tr>\<newline>'' @
     ''\<newline>'' @
     ''    </tbody>\<newline>'' @
     ''</table>\<newline>'' @
     ''\<newline>'' @
     ''<p style="margin-top: 20px;"><strong>Summary of Tickers:</strong> MEVOU, TESTIPO</p>\<newline>'' @
     ''\<newline>'' @
     ''<p style="margin-top: 30px; color: #666;"><em>This is an automated message from your IPO monitoring system.</em></p>\<newline>'' @
     ''</body>\<newline>'' @
     ''</html>\<newline>'')\<close>
proof (intro conjI impI allI)
  assume "ipos \<noteq> []" and "\<forall>ipo\<in>set ipos. renderable lib ipo"
  then show "\<exists>doc. format_email_body lib now ipos = Inr doc"
    by (simp add: format_email_body_returns_iff)
next
  fix doc
  assume ne: "ipos \<noteq> []" and ret: "format_email_body lib now ipos = Inr doc"
  from ret obtain rows symbols where rows: "map (format_row lib) ipos = map (\<lambda>r. Inr (id r)) rows"
    and symbols: "map (\<lambda>ipo. py_getitem ipo ''symbol'') ipos = map (\<lambda>s. Inr (PStr s)) symbols"
    and doc: "doc = populated_body (strftime_B_d_Y now) (length ipos) (concat rows)
                (join_strs '', '' symbols)"
    unfolding format_email_body_Inr_iff [OF ne] by auto
  from map_Inr_nth [OF rows]
  have lr: "length rows = length ipos" and nr: "\<forall>i<length ipos. format_row lib (ipos ! i) = Inr (rows ! i)"
    by simp_all
  from map_Inr_nth [OF symbols]
  have ls: "length symbols = length ipos"
    and ns: "\<forall>i<length ipos. py_getitem (ipos ! i) ''symbol'' = Inr (PStr (symbols ! i))"
    by simp_all
  have cells: \<open>\<forall>i<length ipos.
       \<exists>d name_value name exchange_value exchange price_value price shares_value shares
          offer_value offer status_value status.
         ipos ! i = PDict d \<and>
         map_of d ''symbol'' = Some (PStr (symbols ! i)) \<and>
         map_of d ''name'' = Some name_value \<and> py_str lib name_value = Inr name \<and>
         map_of d ''exchange'' = Some exchange_value \<and>
         py_str lib exchange_value = Inr exchange \<and>
         map_of d ''price'' = Some price_value \<and> py_str lib price_value = Inr price \<and>
         map_of d ''shares'' = Some shares_value \<and>
         py_format_commas lib shares_value = Inr shares \<and>
         map_of d ''offer_amount'' = Some offer_value \<and>
         py_format_commas lib offer_value = Inr offer \<and>
         map_of d ''status'' = Some status_value \<and> py_str lib status_value = Inr status \<and>
         rows ! i =
           ''\<newline>'' @
           ''        <tr>\<newline>'' @
           ''            <td style="padding: 8px; border: 1px solid #ddd;">'' @ ''<strong>'' @ (symbols ! i) @ ''</strong></td>\<newline>'' @
           ''            <td style="padding: 8px; border: 1px solid #ddd;">'' @ name @ ''</td>\<newline>'' @
           ''            <td style="padding: 8px; border: 1px solid #ddd;">'' @ exchange @ ''</td>\<newline>'' @
           ''            <td style="padding: 8px; border: 1px solid #ddd;">'' @ ''$'' @ price @ ''</td>\<newline>'' @
           ''            <td style="padding: 8px; border: 1px solid #ddd;">'' @ shares @ ''</td>\<newline>'' @
           ''            <td style="padding: 8px; border: 1px solid #ddd;">'' @ ''<strong>$'' @ offer @ ''</strong></td>\<newline>'' @
           ''            <td style="padding: 8px; border: 1px solid #ddd;">'' @ status @ ''</td>\<newline>'' @
           ''        </tr>\<newline>''\<close>
  proof (intro allI impI)
    fix i assume "i < length ipos"
    with nr ns have "format_row lib (ipos ! i) = Inr (rows ! i)"
      and "py_getitem (ipos ! i) ''symbol'' = Inr (PStr (symbols ! i))"
      by simp_all
    then show \<open>
       \<exists>d name_value name exchange_value exchange price_value price shares_value shares
          offer_value offer status_value status.
         ipos ! i = PDict d \<and>
         map_of d ''symbol'' = Some (PStr (symbols ! i)) \<and>
         map_of d ''name'' = Some name_value \<and> py_str lib name_value = Inr name \<and>
         map_of d ''exchange'' = Some exchange_value \<and>
         py_str lib exchange_value = Inr exchange \<and>
         map_of d ''price'' = Some price_value \<and> py_str lib price_value = Inr price \<and>
         map_of d ''shares'' = Some shares_value \<and>
         py_format_commas lib shares_value = Inr shares \<and>
         map_of d ''offer_amount'' = Some offer_value \<and>
         py_format_commas lib offer_value = Inr offer \<and>
         map_of d ''status'' = Some status_value \<and> py_str lib status_value = Inr status \<and>
         rows ! i =
           ''\<newline>'' @
           ''        <tr>\<newline>'' @
           ''            <td style="padding: 8px; border: 1px solid #ddd;">'' @ ''<strong>'' @ (symbols ! i) @ ''</strong></td>\<newline>'' @
           ''            <td style="padding: 8px; border: 1px solid #ddd;">'' @ name @ ''</td>\<newline>'' @
           ''            <td style="padding: 8px; border: 1px solid #ddd;">'' @ exchange @ ''</td>\<newline>'' @
           ''            <td style="padding: 8px; border: 1px solid #ddd;">'' @ ''$'' @ price @ ''</td>\<newline>'' @
           ''            <td style="padding: 8px; border: 1px solid #ddd;">'' @ shares @ ''</td>\<newline>'' @
           ''            <td style="padding: 8px; border: 1px solid #ddd;">'' @ ''<strong>$'' @ offer @ ''</strong></td>\<newline>'' @
           ''            <td style="padding: 8px; border: 1px solid #ddd;">'' @ status @ ''</td>\<newline>'' @
           ''        </tr>\<newline>''\<close>
      by (rule format_row_cells)
  qed
  from ne ls have "symbols \<noteq> []"
    by auto
  then have tickers: "join_strs '', '' symbols @ '', '' = concat (map (\<lambda>s. s @ '', '') symbols)"
    by (rule join_strs_commas)
  show \<open>
          \<exists>rows symbols tickers.
            length rows = length ipos \<and> length symbols = length ipos \<and>
            (\<forall>i<length ipos.
               \<exists>d name_value name exchange_value exchange price_value price shares_value shares
                  offer_value offer status_value status.
                 ipos ! i = PDict d \<and>
                 map_of d ''symbol'' = Some (PStr (symbols ! i)) \<and>
                 map_of d ''name'' = Some name_value \<and> py_str lib name_value = Inr name \<and>
                 map_of d ''exchange'' = Some exchange_value \<and>
                 py_str lib exchange_value = Inr exchange \<and>
                 map_of d ''price'' = Some price_value \<and> py_str lib price_value = Inr price \<and>
                 map_of d ''shares'' = Some shares_value \<and>
                 py_format_commas lib shares_value = Inr shares \<and>
                 map_of d ''offer_amount'' = Some offer_value \<and>
                 py_format_commas lib offer_value = Inr offer \<and>
                 map_of d ''status'' = Some status_value \<and> py_str lib status_value = Inr status \<and>
                 rows ! i =
                   ''\<newline>'' @
                   ''        <tr>\<newline>'' @
                   ''            <td style="padding: 8px; border: 1px solid #ddd;">'' @ ''<strong>'' @ (symbols ! i) @ ''</strong></td>\<newline>'' @
                   ''            <td style="padding: 8px; border: 1px solid #ddd;">'' @ name @ ''</td>\<newline>'' @
                   ''            <td style="padding: 8px; border: 1px solid #ddd;">'' @ exchange @ ''</td>\<newline>'' @
                   ''            <td style="padding: 8px; border: 1px solid #ddd;">'' @ ''$'' @ price @ ''</td>\<newline>'' @
                   ''            <td style="padding: 8px; border: 1px solid #ddd;">'' @ shares @ ''</td>\<newline>'' @
                   ''            <td style="padding: 8px; border: 1px solid #ddd;">'' @ ''<strong>$'' @ offer @ ''</strong></td>\<newline>'' @
                   ''            <td style="padding: 8px; border: 1px solid #ddd;">'' @ status @ ''</td>\<newline>'' @
                   ''        </tr>\<newline>'') \<and>
            tickers @ '', '' = concat (map (\<lambda>s. s @ '', '') symbols) \<and>
            doc =
              ''\<newline>'' @
              ''<html>\<newline>'' @
              ''<body>\<newline>'' @
              ''<h2>Daily IPO Monitor - '' @ strftime_B_d_Y now @ ''</h2>\<newline>'' @
              ''<p>Found <strong>'' @ show_nat (length ipos) @
                ''</strong> U.S. IPO(s) with offer amounts above $'' @ ''200,000,000'' @
                '':</p>\<newline>'' @
              ''\<newline>'' @
              ''<table style="border-collapse: collapse; width: 100%; margin-top: 20px;">\<newline>'' @
              ''    <thead>\<newline>'' @
              ''        <tr style="background-color: #4CAF50; color: white;">\<newline>'' @
              ''            <th style="padding: 10px; border: 1px solid #ddd;">'' @ ''Ticker</th>\<newline>'' @
              ''            <th style="padding: 10px; border: 1px solid #ddd;">'' @ ''Company Name</th>\<newline>'' @
              ''            <th style="padding: 10px; border: 1px solid #ddd;">'' @ ''Exchange</th>\<newline>'' @
              ''            <th style="padding: 10px; border: 1px solid #ddd;">'' @ ''Price</th>\<newline>'' @
              ''            <th style="padding: 10px; border: 1px solid #ddd;">'' @ ''Shares</th>\<newline>'' @
              ''            <th style="padding: 10px; border: 1px solid #ddd;">'' @ ''Offer Amount</th>\<newline>'' @
              ''            <th style="padding: 10px; border: 1px solid #ddd;">'' @ ''Status</th>\<newline>'' @
              ''        </tr>\<newline>'' @
              ''    </thead>\<newline>'' @
              ''    <tbody>\<newline>'' @
              concat rows @
              ''\<newline>'' @
              ''    </tbody>\<newline>'' @
              ''</table>\<newline>'' @
              ''\<newline>'' @
              ''<p style="margin-top: 20px;"><strong>Summary of Tickers:</strong> '' @
              tickers @
              ''</p>\<newline>'' @
              ''\<newline>'' @
              ''<p style="margin-top: 30px; color: #666;"><em>This is an automated message from your IPO monitoring system.</em></p>\<newline>'' @
              ''</body>\<newline>'' @
              ''</html>\<newline>''\<close>
    using lr ls cells tickers doc [unfolded populated_body_literal] by blast
next
  show \<open>format_email_body example_builtins example_time
     [PDict [(''symbol'', PStr ''MEVOU''),
             (''name'', PStr ''M Evo Global Acquisition Corp II''),
             (''exchange'', PStr ''NASDAQ Global''),
             (''price'', PStr ''10.00''),
             (''shares'', PInt 27000000),
             (''offer_amount'', PInt 270000000),
             (''status'', PStr ''expected''),
             (''date'', PStr ''2026-01-30'')],
      PDict [(''symbol'', PStr ''TESTIPO''),
             (''name'', PStr ''Test Large IPO Company''),
             (''exchange'', PStr ''NYSE''),
             (''price'', PStr ''25.00''),
             (''shares'', PInt 20000000),
             (''offer_amount'', PInt 500000000),
             (''status'', PStr ''priced''),
             (''date'', PStr ''2026-01-30'')]] = Inr
    (''\<newline>'' @
     ''<html>\<newline>'' @
     ''<body>\<newline>'' @
     ''<h2>Daily IPO Monitor - January 30, 2026</h2>\<newline>'' @
     ''<p>Found <strong>2</strong> U.S. IPO(s) with offer amounts above $200,000,000:</p>\<newline>'' @
     ''\<newline>'' @
     ''<table style="border-collapse: collapse; width: 100%; margin-top: 20px;">\<newline>'' @
     ''    <thead>\<newline>'' @
     ''        <tr style="background-color: #4CAF50; color: white;">\<newline>'' @
     ''            <th style="padding: 10px; border: 1px solid #ddd;">Ticker</th>\<newline>'' @
     ''            <th style="padding: 10px; border: 1px solid #ddd;">Company Name</th>\<newline>'' @
     ''            <th style="padding: 10px; border: 1px solid #ddd;">Exchange</th>\<newline>'' @
     ''            <th style="padding: 10px; border: 1px solid #ddd;">Price</th>\<newline>'' @
     ''            <th style="padding: 10px; border: 1px solid #ddd;">Shares</th>\<newline>'' @
     ''            <th style="padding: 10px; border: 1px solid #ddd;">Offer Amount</th>\<newline>'' @
     ''            <th style="padding: 10px; border: 1px solid #ddd;">Status</th>\<newline>'' @
     ''        </tr>\<newline>'' @
     ''    </thead>\<newline>'' @
     ''    <tbody>\<newline>'' @
     ''\<newline>'' @
     ''        <tr>\<newline>'' @
     ''            <td style="padding: 8px; border: 1px solid #ddd;"><strong>MEVOU</strong></td>\<newline>'' @
     ''            <td style="padding: 8px; border: 1px solid #ddd;">M Evo Global Acquisition Corp II</td>\<newline>'' @
     ''            <td style="padding: 8px; border: 1px solid #ddd;">NASDAQ Global</td>\<newline>'' @
     ''            <td style="padding: 8px; border: 1px solid #ddd;">$10.00</td>\<newline>'' @
     ''            <td style="padding: 8px; border: 1px solid #ddd;">27,000,000</td>\<newline>'' @
     ''            <td style="padding: 8px; border: 1px solid #ddd;"><strong>$270,000,000</strong></td>\<newline>'' @
     ''            <td style="padding: 8px; border: 1px solid #ddd;">expected</td>\<newline>'' @
     ''        </tr>\<newline>'' @
     ''\<newline>'' @
     ''        <tr>\<newline>'' @
     ''            <td style="padding: 8px; border: 1px solid #ddd;"><strong>TESTIPO</strong></td>\<newline>'' @
     ''            <td style="padding: 8px; border: 1px solid #ddd;">Test Large IPO Company</td>\<newline>'' @
     ''            <td style="padding: 8px; border: 1px solid #ddd;">NYSE</td>\<newline>'' @
     ''            <td style="padding: 8px; border: 1px solid #ddd;">$25.00</td>\<newline>'' @
     ''            <td style="padding: 8px; border: 1px solid #ddd;">20,000,000</td>\<newline>'' @
     ''            <td style="padding: 8px; border: 1px solid #ddd;"><strong>$500,000,000</strong></td>\<newline>'' @
     ''            <td style="padding: 8px; border: 1px solid #ddd;">priced</td>\<newline>'' @
     ''        </tr>\<newline>'' @
     ''\<newline>'' @
     ''    </tbody>\<newline>'' @
     ''</table>\<newline>'' @
     ''\<newline>'' @
     ''<p style="margin-top: 20px;"><strong>Summary of Tickers:</strong> MEVOU, TESTIPO</p>\<newline>'' @
     ''\<newline>'' @
     ''<p style="margin-top: 30px; color: #666;"><em>This is an automated message from your IPO monitoring system.</em></p>\<newline>'' @
     ''</body>\<newline>'' @
     ''</html>\<newline>'')\<close>
    by (simp add: format_email_body_def format_row_def row_text_def td_open_def py_join_def
        populated_body_def populated_head_def populated_middle_def populated_tail_def
        th_open_def int_commas_def MIN_OFFER_AMOUNT_def show_nat.simps digit_char_def
        strftime_B_d_Y_def example_time_def pad2_def example_builtins_def
        within_digit_limit_def)
qed

text \<open>
  Claim C3 as stated fails: a record whose share count is the sentinel \<^verbatim>\<open>"N/A"\<close> makes the
  format specification raise \<^verbatim>\<open>ValueError\<close>, and a record whose symbol is \<^verbatim>\<open>None\<close> makes
  the join raise \<^verbatim>\<open>TypeError\<close>; no document is produced.
\<close>

theorem format_email_body_populated_counterexample:
  "format_email_body example_builtins example_time
     [PDict [(''symbol'', PStr ''ACME''), (''name'', PStr ''N/A''),
             (''exchange'', PStr ''N/A''), (''price'', PStr ''N/A''),
             (''shares'', PStr ''N/A''), (''offer_amount'', PInt 300000000),
             (''status'', PStr ''N/A''), (''date'', PStr ''N/A'')]] = Inl ValueError \<and>
   format_email_body example_builtins example_time
     [PDict [(''symbol'', PNone), (''name'', PStr ''Acme Corp''),
             (''exchange'', PStr ''NYSE''), (''price'', PStr ''20.00''),
             (''shares'', PInt 15000000), (''offer_amount'', PInt 300000000),
             (''status'', PStr ''expected''), (''date'', PStr ''2026-01-30'')]] = Inl TypeError"
  by (simp add: format_email_body_def format_row_def py_join_def example_builtins_def
      within_digit_limit_def show_nat.simps)

text \<open>
  Claim C3, amended, at the records of the first and third mock entries on 30 January 2026:
  both can be rendered, and the document has the row of the first before the row of the
  second and the two symbols in that order.
\<close>

theorem format_email_body_populated_witness:
  \<open>[PDict [(''symbol'', PStr ''MEVOU''),
             (''name'', PStr ''M Evo Global Acquisition Corp II''),
             (''exchange'', PStr ''NASDAQ Global''),
             (''price'', PStr ''10.00''),
             (''shares'', PInt 27000000),
             (''offer_amount'', PInt 270000000),
             (''status'', PStr ''expected''),
             (''date'', PStr ''2026-01-30'')],
      PDict [(''symbol'', PStr ''TESTIPO''),
             (''name'', PStr ''Test Large IPO Company''),
             (''exchange'', PStr ''NYSE''),
             (''price'', PStr ''25.00''),
             (''shares'', PInt 20000000),
             (''offer_amount'', PInt 500000000),
             (''status'', PStr ''priced''),
             (''date'', PStr ''2026-01-30'')]] \<noteq> [] \<and>
   renderable example_builtins
     (PDict [(''symbol'', PStr ''MEVOU''),
             (''name'', PStr ''M Evo Global Acquisition Corp II''),
             (''exchange'', PStr ''NASDAQ Global''),
             (''price'', PStr ''10.00''),
             (''shares'', PInt 27000000),
             (''offer_amount'', PInt 270000000),
             (''status'', PStr ''expected''),
             (''date'', PStr ''2026-01-30'')]) \<and>
   renderable example_builtins
     (PDict [(''symbol'', PStr ''TESTIPO''),
             (''name'', PStr ''Test Large IPO Company''),
             (''exchange'', PStr ''NYSE''),
             (''price'', PStr ''25.00''),
             (''shares'', PInt 20000000),
             (''offer_amount'', PInt 500000000),
             (''status'', PStr ''priced''),
             (''date'', PStr ''2026-01-30'')]) \<and>
   (\<exists>doc. format_email_body example_builtins example_time
      [PDict [(''symbol'', PStr ''MEVOU''),
             (''name'', PStr ''M Evo Global Acquisition Corp II''),
             (''exchange'', PStr ''NASDAQ Global''),
             (''price'', PStr ''10.00''),
             (''shares'', PInt 27000000),
             (''offer_amount'', PInt 270000000),
             (''status'', PStr ''expected''),
             (''date'', PStr ''2026-01-30'')],
      PDict [(''symbol'', PStr ''TESTIPO''),
             (''name'', PStr ''Test Large IPO Company''),
             (''exchange'', PStr ''NYSE''),
             (''price'', PStr ''25.00''),
             (''shares'', PInt 20000000),
             (''offer_amount'', PInt 500000000),
             (''status'', PStr ''priced''),
             (''date'', PStr ''2026-01-30'')]] = Inr doc) \<and>
   format_email_body example_builtins example_time
     [PDict [(''symbol'', PStr ''MEVOU''),
             (''name'', PStr ''M Evo Global Acquisition Corp II''),
             (''exchange'', PStr ''NASDAQ Global''),
             (''price'', PStr ''10.00''),
             (''shares'', PInt 27000000),
             (''offer_amount'', PInt 270000000),
             (''status'', PStr ''expected''),
             (''date'', PStr ''2026-01-30'')],
      PDict [(''symbol'', PStr ''TESTIPO''),
             (''name'', PStr ''Test Large IPO Company''),
             (''exchange'', PStr ''NYSE''),
             (''price'', PStr ''25.00''),
             (''shares'', PInt 20000000),
             (''offer_amount'', PInt 500000000),
             (''status'', PStr ''priced''),
             (''date'', PStr ''2026-01-30'')]] = Inr
    (''\<newline>'' @
     ''<html>\<newline>'' @
     ''<body>\<newline>'' @
     ''<h2>Daily IPO Monitor - January 30, 2026</h2>\<newline>'' @
     ''<p>Found <strong>2</strong> U.S. IPO(s) with offer amounts above $200,000,000:</p>\<newline>'' @
     ''\<newline>'' @
     ''<table style="border-collapse: collapse; width: 100%; margin-top: 20px;">\<newline>'' @
     ''    <thead>\<newline>'' @
     ''        <tr style="background-color: #4CAF50; color: white;">\<newline>'' @
     ''            <th style="padding: 10px; border: 1px solid #ddd;">Ticker</th>\<newline>'' @
     ''            <th style="padding: 10px; border: 1px solid #ddd;">Company Name</th>\<newline>'' @
     ''            <th style="padding: 10px; border: 1px solid #ddd;">Exchange</th>\<newline>'' @
     ''            <th style="padding: 10px; border: 1px solid #ddd;">Price</th>\<newline>'' @
     ''            <th style="padding: 10px; border: 1px solid #ddd;">Shares</th>\<newline>'' @
     ''            <th style="padding: 10px; border: 1px solid #ddd;">Offer Amount</th>\<newline>'' @
     ''            <th style="padding: 10px; border: 1px solid #ddd;">Status</th>\<newline>'' @
     ''        </tr>\<newline>'' @
     ''    </thead>\<newline>'' @
     ''    <tbody>\<newline>'' @
     ''\<newline>'' @
     ''        <tr>\<newline>'' @
     ''            <td style="padding: 8px; border: 1px solid #ddd;"><strong>MEVOU</strong></td>\<newline>'' @
     ''            <td style="padding: 8px; border: 1px solid #ddd;">M Evo Global Acquisition Corp II</td>\<newline>'' @
     ''            <td style="padding: 8px; border: 1px solid #ddd;">NASDAQ Global</td>\<newline>'' @
     ''            <td style="padding: 8px; border: 1px solid #ddd;">$10.00</td>\<newline>'' @
     ''            <td style="padding: 8px; border: 1px solid #ddd;">27,000,000</td>\<newline>'' @
     ''            <td style="padding: 8px; border: 1px solid #ddd;"><strong>$270,000,000</strong></td>\<newline>'' @
     ''            <td style="padding: 8px; border: 1px solid #ddd;">expected</td>\<newline>'' @
     ''        </tr>\<newline>'' @
     ''\<newline>'' @
     ''        <tr>\<newline>'' @
     ''            <td style="padding: 8px; border: 1px solid #ddd;"><strong>TESTIPO</strong></td>\<newline>'' @
     ''            <td style="padding: 8px; border: 1px solid #ddd;">Test Large IPO Company</td>\<newline>'' @
     ''            <td style="padding: 8px; border: 1px solid #ddd;">NYSE</td>\<newline>'' @
     ''            <td style="padding: 8px; border: 1px solid #ddd;">$25.00</td>\<newline>'' @
     ''            <td style="padding: 8px; border: 1px solid #ddd;">20,000,000</td>\<newline>'' @
     ''            <td style="padding: 8px; border: 1px solid #ddd;"><strong>$500,000,000</strong></td>\<newline>'' @
     ''            <td style="padding: 8px; border: 1px solid #ddd;">priced</td>\<newline>'' @
     ''        </tr>\<newline>'' @
     ''\<newline>'' @
     ''    </tbody>\<newline>'' @
     ''</table>\<newline>'' @
     ''\<newline>'' @
     ''<p style="margin-top: 20px;"><strong>Summary of Tickers:</strong> MEVOU, TESTIPO</p>\<newline>'' @
     ''\<newline>'' @
     ''<p style="margin-top: 30px; color: #666;"><em>This is an automated message from your IPO monitoring system.</em></p>\<newline>'' @
     ''</body>\<newline>'' @
     ''</html>\<newline>'')\<close>
proof -
  let ?q = "[PDict [(''symbol'', PStr ''MEVOU''),
             (''name'', PStr ''M Evo Global Acquisition Corp II''),
             (''exchange'', PStr ''NASDAQ Global''),
             (''price'', PStr ''10.00''),
             (''shares'', PInt 27000000),
             (''offer_amount'', PInt 270000000),
             (''status'', PStr ''expected''),
             (''date'', PStr ''2026-01-30'')],
      PDict [(''symbol'', PStr ''TESTIPO''),
             (''name'', PStr ''Test Large IPO Company''),
             (''exchange'', PStr ''NYSE''),
             (''price'', PStr ''25.00''),
             (''shares'', PInt 20000000),
             (''offer_amount'', PInt 500000000),
             (''status'', PStr ''priced''),
             (''date'', PStr ''2026-01-30'')]]"
  have ne: "?q \<noteq> []" by simp
  have r: "\<forall>ipo\<in>set ?q. renderable example_builtins ipo"
    by (simp add: has_string_def has_field_def has_number_def example_builtins_def
        within_digit_limit_def show_nat.simps)
  have r1: "renderable example_builtins (?q ! 0)" and r2: "renderable example_builtins (?q ! 1)"
    using r by simp_all
  note t = format_email_body_populated [of ?q example_builtins example_time]
  note general = t [THEN conjunct1, THEN mp, OF ne]
  note returns = general [THEN conjunct1, THEN mp, OF r]
  note document = t [THEN conjunct2]
  show ?thesis
    using ne r1 r2 returns document by simp
qed

lemma normalized_missing_shares:
  "map_of d ''numberOfShares'' = None \<Longrightarrow> \<not> renderable lib (normalized d)"
  by (simp add: normalized_def qualifying_record_def dict_get_def has_number_def)

text \<open>
  Claim C9. The code does not do what the claim says: for a qualifying entry without
  \<^verbatim>\<open>numberOfShares\<close> the filter stores \<^verbatim>\<open>"N/A"\<close> as share count, and the row applies the
  format specification \<^verbatim>\<open>,\<close> to that string, which raises \<^verbatim>\<open>ValueError\<close>. Whenever some
  qualifying entry of the input lacks the field, rendering the output of the filter raises.
\<close>

theorem format_email_body_missing_shares:
  "bind_exn
     (filter_large_ipos
        [PDict [(''symbol'', PStr ''ACME''), (''name'', PStr ''Acme Corp''),
                (''exchange'', PStr ''NYSE''), (''price'', PStr ''20.00''),
                (''totalSharesValue'', PInt 300000000), (''status'', PStr ''expected''),
                (''date'', PStr ''2026-01-30'')]])
     (format_email_body lib now) = Inl ValueError \<and>
   (filter_large_ipos (map PDict ds) = Inr ys \<and>
    (\<exists>d\<in>set ds. meets_threshold d \<and> map_of d ''numberOfShares'' = None) \<longrightarrow>
      (\<exists>e. format_email_body lib now ys = Inl e))"
proof (rule conjI)
  show "bind_exn
     (filter_large_ipos
        [PDict [(''symbol'', PStr ''ACME''), (''name'', PStr ''Acme Corp''),
                (''exchange'', PStr ''NYSE''), (''price'', PStr ''20.00''),
                (''totalSharesValue'', PInt 300000000), (''status'', PStr ''expected''),
                (''date'', PStr ''2026-01-30'')]])
     (format_email_body lib now) = Inl ValueError"
    by (simp add: filter_large_ipos_def dict_get_def qualifying_record_def
        MIN_OFFER_AMOUNT_def Let_def format_email_body_def format_row_def)
  show "filter_large_ipos (map PDict ds) = Inr ys \<and>
    (\<exists>d\<in>set ds. meets_threshold d \<and> map_of d ''numberOfShares'' = None) \<longrightarrow>
      (\<exists>e. format_email_body lib now ys = Inl e)"
  proof
    assume h: "filter_large_ipos (map PDict ds) = Inr ys \<and>
      (\<exists>d\<in>set ds. meets_threshold d \<and> map_of d ''numberOfShares'' = None)"
    then obtain d where d: "d \<in> set ds" "meets_threshold d" "map_of d ''numberOfShares'' = None"
      by blast
    from h have ys: "ys = map normalized (filter meets_threshold ds)"
      by (simp add: filter_large_ipos_dicts split: if_splits)
    from d(1) d(2) have mem: "normalized d \<in> set ys"
      unfolding ys by simp
    then have ne: "ys \<noteq> []"
      by auto
    from d(3) have "\<not> renderable lib (normalized d)"
      by (rule normalized_missing_shares)
    with mem have "\<not> (\<forall>ipo\<in>set ys. renderable lib ipo)"
      by blast
    then have "\<not> (\<exists>doc. format_email_body lib now ys = Inr doc)"
      unfolding format_email_body_returns_iff [OF ne] .
    then show "\<exists>e. format_email_body lib now ys = Inl e"
      by (cases "format_email_body lib now ys") auto
  qed
qed

text \<open>Claim C9, the general statement, at one qualifying entry that has only a symbol.\<close>

theorem format_email_body_missing_shares_witness:
  "\<exists>e. format_email_body example_builtins example_time
     [normalized [(''symbol'', PStr ''ACME''), (''totalSharesValue'', PInt 300000000)]] = Inl e"
proof -
  let ?d = "[(''symbol'', PStr ''ACME''), (''totalSharesValue'', PInt 300000000)]"
  have m: "meets_threshold ?d"
    by (simp add: meets_threshold_def total_value_def dict_get_def MIN_OFFER_AMOUNT_def)
  have n: "numeric_or_falsy ?d"
    by (simp add: numeric_or_falsy_def total_value_def dict_get_def)
  have run: "filter_large_ipos (map PDict [?d]) = Inr [normalized ?d]"
    using m n filter_large_ipos_dicts [of "[?d]"] by simp
  have ex: "\<exists>d\<in>set [?d]. meets_threshold d \<and> map_of d ''numberOfShares'' = None"
    using m by simp
  from format_email_body_missing_shares [of example_builtins example_time "[?d]" "[normalized ?d]"]
  have "filter_large_ipos (map PDict [?d]) = Inr [normalized ?d] \<and>
      (\<exists>d\<in>set [?d]. meets_threshold d \<and> map_of d ''numberOfShares'' = None) \<longrightarrow>
      (\<exists>e. format_email_body example_builtins example_time [normalized ?d] = Inl e)"
    by (rule conjunct2)
  with run ex show ?thesis by blast
qed

section \<open>Properties of the fetch and of the run\<close>

subsection \<open>The fetch\<close>

lemma print_attempts [simp]: "mail_attempts (print line w) = mail_attempts w"
  by (simp add: print_def)

lemma print_stdout [simp]: "stdout (print line w) = stdout w @ [line]"
  by (simp add: print_def)

lemma fetch_except_fst: "fst (fetch_except e w) = fst (fetch_except e w')"
  by (cases e) simp_all

lemma fetch_except_attempts: "mail_attempts (snd (fetch_except e w)) = mail_attempts w"
  by (cases e) simp_all

lemma get_todays_ipos_fst:
  "fst (get_todays_ipos E now w) = fst (get_todays_ipos E now w')"
  unfolding get_todays_ipos_def Let_def
  using fetch_except_fst [of _ w w']
  by (simp split: sum.splits option.splits)

lemma get_todays_ipos_attempts:
  "mail_attempts (snd (get_todays_ipos E now w)) = mail_attempts w"
  unfolding get_todays_ipos_def Let_def
  by (simp add: fetch_except_attempts split: sum.splits option.splits)

lemma get_todays_ipos_fetched:
  obtains w' where "get_todays_ipos E (clock E 1) w = (fetched E, w')"
    and "mail_attempts w' = mail_attempts w"
proof -
  have "fst (get_todays_ipos E (clock E 1) w) = fetched E"
    unfolding fetched_def by (rule get_todays_ipos_fst)
  then have "get_todays_ipos E (clock E 1) w = (fetched E, snd (get_todays_ipos E (clock E 1) w))"
    by (simp add: prod_eq_iff)
  then show thesis
    using get_todays_ipos_attempts that by blast
qed

lemma raise_for_status_error:
  "400 \<le> status_code r \<and> status_code r < 600 \<Longrightarrow>
     raise_for_status r = Some (RequestException (http_error_msg r))"
  by (simp add: raise_for_status_def)

lemma raise_for_status_other:
  "\<not> (400 \<le> status_code r \<and> status_code r < 600) \<Longrightarrow> raise_for_status r = None"
  by (simp add: raise_for_status_def)

text \<open>
  Claim C7, amended. When the request raises a \<^verbatim>\<open>RequestException\<close> (a timeout, a connection
  or name resolution error), when the response has an HTTP error status, from 400 to 599, or
  when decoding the body raises a \<^verbatim>\<open>RequestException\<close>, \<^verbatim>\<open>get_todays_ipos\<close> prints the error
  and returns the empty list. The empty list is also what it returns, with nothing printed,
  when a response without error status lists no entries or has no calendar.
\<close>

theorem get_todays_ipos_failure:
  "(ipo_request E now = Inl (RequestException e) \<longrightarrow>
      get_todays_ipos E now w =
        (Inr (PList []), print (''Error fetching IPO data: '' @ e) w)) \<and>
   (\<forall>r. ipo_request E now = Inr r \<and> 400 \<le> status_code r \<and> status_code r < 600 \<longrightarrow>
      get_todays_ipos E now w =
        (Inr (PList []), print (''Error fetching IPO data: '' @ http_error_msg r) w) \<and>
      http_error_msg r =
        show_nat (status_code r) @
        (if status_code r < 500 then '' Client Error: '' else '' Server Error: '') @
        reason r @ '' for url: '' @ url r) \<and>
   (\<forall>r. ipo_request E now = Inr r \<and> \<not> (400 \<le> status_code r \<and> status_code r < 600) \<and>
      json r = Inl (RequestException e) \<longrightarrow>
      get_todays_ipos E now w =
        (Inr (PList []), print (''Error fetching IPO data: '' @ e) w)) \<and>
   (\<forall>r d. ipo_request E now = Inr r \<and> \<not> (400 \<le> status_code r \<and> status_code r < 600) \<and>
      json r = Inr (PDict d) \<and>
      (map_of d ''ipoCalendar'' = None \<or> map_of d ''ipoCalendar'' = Some (PList [])) \<longrightarrow>
      get_todays_ipos E now w = (Inr (PList []), w))"
proof (intro conjI allI impI)
  assume "ipo_request E now = Inl (RequestException e)"
  then show "get_todays_ipos E now w =
        (Inr (PList []), print (''Error fetching IPO data: '' @ e) w)"
    unfolding get_todays_ipos_def ipo_request_def Let_def by simp
next
  fix r
  assume h: "ipo_request E now = Inr r \<and> 400 \<le> status_code r \<and> status_code r < 600"
  then have "raise_for_status r = Some (RequestException (http_error_msg r))"
    by (simp add: raise_for_status_error)
  with h show "get_todays_ipos E now w =
        (Inr (PList []), print (''Error fetching IPO data: '' @ http_error_msg r) w)"
    unfolding get_todays_ipos_def ipo_request_def Let_def by simp
next
  fix r
  show "http_error_msg r =
        show_nat (status_code r) @
        (if status_code r < 500 then '' Client Error: '' else '' Server Error: '') @
        reason r @ '' for url: '' @ url r"
    by (rule http_error_msg_def)
next
  fix r
  assume h: "ipo_request E now = Inr r \<and> \<not> (400 \<le> status_code r \<and> status_code r < 600) \<and>
      json r = Inl (RequestException e)"
  then have "raise_for_status r = None"
    by (simp add: raise_for_status_other)
  with h show "get_todays_ipos E now w =
        (Inr (PList []), print (''Error fetching IPO data: '' @ e) w)"
    unfolding get_todays_ipos_def ipo_request_def Let_def by simp
next
  fix r d
  assume h: "ipo_request E now = Inr r \<and> \<not> (400 \<le> status_code r \<and> status_code r < 600) \<and>
      json r = Inr (PDict d) \<and>
      (map_of d ''ipoCalendar'' = None \<or> map_of d ''ipoCalendar'' = Some (PList []))"
  then have "raise_for_status r = None"
    by (simp add: raise_for_status_other)
  with h show "get_todays_ipos E now w = (Inr (PList []), w)"
    unfolding get_todays_ipos_def ipo_request_def Let_def by (auto simp: dict_get_def)
qed

text \<open>
  Claim C7 as stated fails for a status that is neither a success nor an error: a response
  with status 300 raises nothing, so its calendar is decoded and returned, and nothing is
  printed.
\<close>

theorem get_todays_ipos_failure_counterexample:
  "get_todays_ipos
     (example_env
        (http_reply 300 ''Multiple Choices''
           (Inr (PDict [(''ipoCalendar'', PList [PDict [(''symbol'', PStr ''ACME'')]])])))
        None)
     example_time initial_world =
   (Inr (PList [PDict [(''symbol'', PStr ''ACME'')]]), initial_world)"
  by (simp add: get_todays_ipos_def example_env_def http_reply_def raise_for_status_def
      dict_get_def)

text \<open>
  Claim C7, amended, at a request that times out, at a response with status 404, and at a
  reply with an empty calendar.
\<close>

theorem get_todays_ipos_failure_witness:
  "get_todays_ipos (example_env (Inl (RequestException ''timed out'')) None) example_time
     initial_world =
     (Inr (PList []), print ''Error fetching IPO data: timed out'' initial_world) \<and>
   get_todays_ipos (example_env (http_reply 404 ''Not Found'' (Inl ValueError)) None)
     example_time initial_world =
     (Inr (PList []),
      print (''Error fetching IPO data: 404 Client Error: Not Found for url: '' @
             ''https://finnhub.io/api/v1/calendar/ipo'') initial_world) \<and>
   get_todays_ipos (example_env (calendar_reply []) None) example_time initial_world =
     (Inr (PList []), initial_world)"
proof (intro conjI)
  let ?E = "example_env (Inl (RequestException ''timed out'')) None"
  have "ipo_request ?E example_time = Inl (RequestException ''timed out'')"
    by (simp add: ipo_request_def example_env_def)
  with get_todays_ipos_failure [of ?E example_time "''timed out''" initial_world]
  show "get_todays_ipos ?E example_time initial_world =
     (Inr (PList []), print ''Error fetching IPO data: timed out'' initial_world)"
    by simp
next
  let ?r = "\<lparr>status_code = 404, reason = ''Not Found'',
      url = ''https://finnhub.io/api/v1/calendar/ipo'', json = Inl ValueError\<rparr>"
  let ?E = "example_env (http_reply 404 ''Not Found'' (Inl ValueError)) None"
  have req: "ipo_request ?E example_time = Inr ?r \<and> 400 \<le> status_code ?r \<and> status_code ?r < 600"
    by (simp add: ipo_request_def example_env_def http_reply_def)
  from get_todays_ipos_failure [of ?E example_time "''''" initial_world]
  have "\<forall>r. ipo_request ?E example_time = Inr r \<and> 400 \<le> status_code r \<and> status_code r < 600 \<longrightarrow>
      get_todays_ipos ?E example_time initial_world =
        (Inr (PList []), print (''Error fetching IPO data: '' @ http_error_msg r) initial_world) \<and>
      http_error_msg r =
        show_nat (status_code r) @
        (if status_code r < 500 then '' Client Error: '' else '' Server Error: '') @
        reason r @ '' for url: '' @ url r"
    by (elim conjE)
  with req have "get_todays_ipos ?E example_time initial_world =
        (Inr (PList []), print (''Error fetching IPO data: '' @ http_error_msg ?r) initial_world) \<and>
      http_error_msg ?r =
        show_nat (status_code ?r) @
        (if status_code ?r < 500 then '' Client Error: '' else '' Server Error: '') @
        reason ?r @ '' for url: '' @ url ?r"
    by blast
  then show "get_todays_ipos ?E example_time initial_world =
     (Inr (PList []),
      print (''Error fetching IPO data: 404 Client Error: Not Found for url: '' @
             ''https://finnhub.io/api/v1/calendar/ipo'') initial_world)"
    by (simp add: show_nat.simps digit_char_def)
next
  let ?E = "example_env (calendar_reply []) None"
  let ?r = "\<lparr>status_code = 200, reason = ''OK'',
      url = ''https://finnhub.io/api/v1/calendar/ipo'',
      json = Inr (PDict [(''ipoCalendar'', PList [])])\<rparr>"
  have "ipo_request ?E example_time = Inr ?r \<and>
      \<not> (400 \<le> status_code ?r \<and> status_code ?r < 600) \<and>
      json ?r = Inr (PDict [(''ipoCalendar'', PList [])]) \<and>
      (map_of [(''ipoCalendar'', PList [])] ''ipoCalendar'' = None \<or>
       map_of [(''ipoCalendar'', PList [])] ''ipoCalendar'' = Some (PList []))"
    by (simp add: ipo_request_def example_env_def calendar_reply_def http_reply_def)
  moreover from get_todays_ipos_failure [of ?E example_time "''''" initial_world]
  have "\<forall>r d. ipo_request ?E example_time = Inr r \<and>
      \<not> (400 \<le> status_code r \<and> status_code r < 600) \<and>
      json r = Inr (PDict d) \<and>
      (map_of d ''ipoCalendar'' = None \<or> map_of d ''ipoCalendar'' = Some (PList [])) \<longrightarrow>
      get_todays_ipos ?E example_time initial_world = (Inr (PList []), initial_world)"
    by (elim conjE)
  ultimately show "get_todays_ipos ?E example_time initial_world = (Inr (PList []), initial_world)"
    by blast
qed

subsection \<open>The run\<close>

lemma display_loop_attempts:
  "mail_attempts (snd (display_loop lib q w)) = mail_attempts w"
  by (induction q arbitrary: w) (simp_all split: sum.splits)

lemma display_loop_error: "fst (display_loop lib q w) = display_error lib q"
  by (induction q arbitrary: w) (simp_all split: sum.splits)

lemma display_loop_world:
  "display_loop lib q w = (r, w') \<Longrightarrow> mail_attempts w' = mail_attempts w \<and> r = display_error lib q"
  using display_loop_attempts [of lib q w] display_loop_error [of lib q w] by simp

lemma display_error_None:
  "\<forall>ipo\<in>set q. \<exists>line. display_line lib ipo = Inr line \<Longrightarrow> display_error lib q = None"
  by (induction q) auto

lemma display_line_row:
  assumes "format_row lib ipo = Inr row"
  shows "\<exists>line. display_line lib ipo = Inr line"
proof (cases ipo)
  case (PDict d)
  from assms [unfolded PDict format_row_dict]
  obtain symbol_value symbol name_value name offer_value offer
    where "map_of d ''symbol'' = Some symbol_value" "py_str lib symbol_value = Inr symbol"
      "map_of d ''name'' = Some name_value" "py_str lib name_value = Inr name"
      "map_of d ''offer_amount'' = Some offer_value" "py_format_commas lib offer_value = Inr offer"
    by blast
  then show ?thesis
    by (simp add: PDict display_line_def)
qed (use assms in \<open>simp_all add: format_row_def\<close>)

lemma display_error_rendered:
  assumes "format_email_body lib now q = Inr body"
  shows "display_error lib q = None"
proof (cases "q = []")
  case True
  then show ?thesis by simp
next
  case False
  from assms obtain rows where "map (format_row lib) q = map (\<lambda>r. Inr (id r)) rows"
    unfolding format_email_body_Inr_iff [OF False] by auto
  then have "\<forall>ipo\<in>set q. \<exists>row. format_row lib ipo = Inr (id row)"
    unfolding all_Inr_map by (rule exI)
  then have "\<forall>ipo\<in>set q. \<exists>line. display_line lib ipo = Inr line"
    using display_line_row by auto
  then show ?thesis
    by (rule display_error_None)
qed

lemma send_email_result:
  "\<exists>w'. send_email E subject body w =
          (smtp_session E (mail_message E subject body) = None, w') \<and>
        mail_attempts w' = mail_attempts w @ [mail_message E subject body] \<and>
        (smtp_session E (mail_message E subject body) = Some AuthenticationFailed \<longrightarrow>
           stdout w' = stdout w @ authentication_guidance)"
  unfolding send_email_def mail_message_def authentication_guidance_def Let_def
  by (auto split: option.splits smtp_failure.splits)

lemma main_sent:
  assumes "fetched E = Inr all_ipos" and "py_len all_ipos = Inr n"
    and "py_iter all_ipos = Inr xs" and "filter_large_ipos xs = Inr q"
    and "display_error (pylib E) q = None"
    and "format_email_body (pylib E) (clock E 3) q = Inr body"
  shows "\<exists>w. main E w0 =
           (Inr (if smtp_session E (alert_mail E q body) = None then 0 else 1), w) \<and>
         mail_attempts w = mail_attempts w0 @ [alert_mail E q body] \<and>
         (smtp_session E (alert_mail E q body) = Some AuthenticationFailed \<longrightarrow>
            set authentication_guidance \<subseteq> set (stdout w))"
proof -
  let ?w7 = "print ''Fetching today's IPO data from Finnhub...''
      (print (replicate 70 CHR ''-'')
        (print (''Minimum Offer Amount: $'' @ int_commas MIN_OFFER_AMOUNT)
          (print (''Date: '' @ strftime_Y_m_d_H_M_S (clock E 0))
            (print (replicate 70 CHR ''='')
              (print ''IPO MONITOR - Daily Check'' (print (replicate 70 CHR ''='') w0))))))"
  obtain w8 where w8: "get_todays_ipos E (clock E 1) ?w7 = (Inr all_ipos, w8)"
    "mail_attempts w8 = mail_attempts w0"
    using get_todays_ipos_fetched [of E ?w7] assms(1) by auto
  let ?w11 = "print (check_mark @ '' Found '' @ show_nat (length q) @
                   '' IPO(s) with offer amount > $'' @ int_commas MIN_OFFER_AMOUNT)
      (print ''Filtering for high-value listings...''
        (print (check_mark @ '' Found '' @ show_nat n @ '' total IPO(s) for today'') w8))"
  define shown where "shown = (if q \<noteq> []
      then display_loop (pylib E) q (print ''\<newline>Qualifying IPOs:'' ?w11) else (None, ?w11))"
  have "fst shown = None"
    unfolding shown_def using assms(5) by (simp add: display_loop_error)
  moreover have "mail_attempts (snd shown) = mail_attempts w0"
    unfolding shown_def using w8(2) by (simp add: display_loop_attempts)
  ultimately obtain w12 where w12: "shown = (None, w12)" "mail_attempts w12 = mail_attempts w0"
    by (cases shown) auto
  let ?subject = "''IPO Alert: '' @ show_nat (length q) @ '' Large IPO(s) Today - '' @
      strftime_Y_m_d (clock E 2)"
  let ?w13 = "print ''\<newline>Preparing email notification...'' w12"
  obtain w14 where w14: "send_email E ?subject body ?w13 =
      (smtp_session E (alert_mail E q body) = None, w14)"
    "mail_attempts w14 = mail_attempts w0 @ [alert_mail E q body]"
    "smtp_session E (alert_mail E q body) = Some AuthenticationFailed \<longrightarrow>
       stdout w14 = stdout ?w13 @ authentication_guidance"
    using send_email_result [of E ?subject body ?w13] w12(2)
    unfolding alert_mail_def by auto
  show ?thesis
    unfolding main_def Let_def
    using w8(1) assms(2,3,4,6) w12(1) [unfolded shown_def] w14
    by (auto simp: authentication_guidance_def)
qed

lemma main_raised:
  assumes "prepared E = Inl e"
  shows "\<exists>w. main E w0 = (Inl e, w) \<and> mail_attempts w = mail_attempts w0"
proof -
  let ?w7 = "print ''Fetching today's IPO data from Finnhub...''
      (print (replicate 70 CHR ''-'')
        (print (''Minimum Offer Amount: $'' @ int_commas MIN_OFFER_AMOUNT)
          (print (''Date: '' @ strftime_Y_m_d_H_M_S (clock E 0))
            (print (replicate 70 CHR ''='')
              (print ''IPO MONITOR - Daily Check'' (print (replicate 70 CHR ''='') w0))))))"
  obtain w8 where w8: "get_todays_ipos E (clock E 1) ?w7 = (fetched E, w8)"
    "mail_attempts w8 = mail_attempts w0"
    using get_todays_ipos_fetched [of E ?w7] by auto
  show ?thesis
  proof (cases "fetched E")
    case (Inl e1)
    with assms w8 show ?thesis
      unfolding main_def Let_def prepared_def by simp
  next
    case all_ipos: (Inr all_ipos)
    show ?thesis
    proof (cases "py_len all_ipos")
      case (Inl e2)
      with assms w8 all_ipos show ?thesis
        unfolding main_def Let_def prepared_def by simp
    next
      case n: (Inr n)
      show ?thesis
      proof (cases "py_iter all_ipos")
        case (Inl e3)
        with assms w8 all_ipos n show ?thesis
          unfolding main_def Let_def prepared_def by simp
      next
        case xs: (Inr xs)
        show ?thesis
        proof (cases "filter_large_ipos xs")
          case (Inl e4)
          with assms w8 all_ipos n xs show ?thesis
            unfolding main_def Let_def prepared_def by simp
        next
          case q: (Inr q)
          show ?thesis
          proof (cases "display_error (pylib E) q")
            case (Some e5)
            with assms all_ipos n xs q have e5: "e5 = e"
              unfolding prepared_def by simp
            from Some have ne: "q \<noteq> []"
              by auto
            show ?thesis
              unfolding main_def Let_def
              using w8 all_ipos n xs q Some e5 ne
              by (auto split: prod.splits option.splits dest: display_loop_world)
          next
            case None
            with assms all_ipos n xs q
            have body: "format_email_body (pylib E) (clock E 3) q = Inl e"
              unfolding prepared_def
              by (cases "format_email_body (pylib E) (clock E 3) q") simp_all
            show ?thesis
              unfolding main_def Let_def
              using w8 all_ipos n xs q body None
              by (auto split: prod.splits option.splits dest: display_loop_world)
          qed
        qed
      qed
    qed
  qed
qed

lemma main_prepared:
  "\<exists>w. main E w0 =
          (case prepared E of
             Inl e \<Rightarrow> Inl e
           | Inr (q, body) \<Rightarrow>
               Inr (if smtp_session E (alert_mail E q body) = None then 0 else 1), w) \<and>
       mail_attempts w = mail_attempts w0 @
          (case prepared E of Inl e \<Rightarrow> [] | Inr (q, body) \<Rightarrow> [alert_mail E q body]) \<and>
       (\<forall>q body. prepared E = Inr (q, body) \<and>
          smtp_session E (alert_mail E q body) = Some AuthenticationFailed \<longrightarrow>
          set authentication_guidance \<subseteq> set (stdout w))"
proof (cases "prepared E")
  case (Inl e)
  then show ?thesis
    using main_raised [of E e w0] by auto
next
  case (Inr qb)
  obtain q body where qb: "qb = (q, body)"
    by (cases qb)
  from Inr qb obtain all_ipos n xs where "fetched E = Inr all_ipos" "py_len all_ipos = Inr n"
    "py_iter all_ipos = Inr xs" "filter_large_ipos xs = Inr q"
    "display_error (pylib E) q = None"
    "format_email_body (pylib E) (clock E 3) q = Inr body"
    unfolding prepared_def by (auto simp: bind_exn_Inr_iff split: option.splits)
  from main_sent [OF this, of w0] Inr qb show ?thesis
    by auto
qed

lemma run_script_prepared:
  "fst (run_script E) =
     (case prepared E of
        Inl e \<Rightarrow> 1
      | Inr (q, body) \<Rightarrow> if smtp_session E (alert_mail E q body) = None then 0 else 1) \<and>
   mail_attempts (snd (run_script E)) =
     (case prepared E of Inl e \<Rightarrow> [] | Inr (q, body) \<Rightarrow> [alert_mail E q body]) \<and>
   (\<forall>q body. prepared E = Inr (q, body) \<and>
      smtp_session E (alert_mail E q body) = Some AuthenticationFailed \<longrightarrow>
      set authentication_guidance \<subseteq> set (stdout (snd (run_script E))))"
proof -
  obtain w where w: "main E initial_world =
          (case prepared E of
             Inl e \<Rightarrow> Inl e
           | Inr (q, body) \<Rightarrow>
               Inr (if smtp_session E (alert_mail E q body) = None then 0 else 1), w)"
    "mail_attempts w = mail_attempts initial_world @
          (case prepared E of Inl e \<Rightarrow> [] | Inr (q, body) \<Rightarrow> [alert_mail E q body])"
    "\<forall>q body. prepared E = Inr (q, body) \<and>
          smtp_session E (alert_mail E q body) = Some AuthenticationFailed \<longrightarrow>
          set authentication_guidance \<subseteq> set (stdout w)"
    using main_prepared [of E initial_world] by blast
  have run: "run_script E =
      (exit_status (case prepared E of
             Inl e \<Rightarrow> Inl e
           | Inr (q, body) \<Rightarrow>
               Inr (if smtp_session E (alert_mail E q body) = None then 0 else 1)), w)"
    unfolding run_script_def using w(1) by (simp add: initial_world_def)
  have a: "fst (run_script E) =
     (case prepared E of
        Inl e \<Rightarrow> 1
      | Inr (q, body) \<Rightarrow> if smtp_session E (alert_mail E q body) = None then 0 else 1)"
    unfolding run by (simp split: sum.splits prod.splits)
  have b: "mail_attempts (snd (run_script E)) =
     (case prepared E of Inl e \<Rightarrow> [] | Inr (q, body) \<Rightarrow> [alert_mail E q body])"
    unfolding run using w(2) by (simp add: initial_world_def)
  have c: "\<forall>q body. prepared E = Inr (q, body) \<and>
      smtp_session E (alert_mail E q body) = Some AuthenticationFailed \<longrightarrow>
      set authentication_guidance \<subseteq> set (stdout (snd (run_script E)))"
    unfolding run using w(3) by simp
  show ?thesis
    by (rule conjI [OF a conjI [OF b c]])
qed

lemma fetched_failure:
  assumes "(\<exists>e. ipo_request E (clock E 1) = Inl (RequestException e)) \<or>
     (\<exists>r e. ipo_request E (clock E 1) = Inr r \<and> raise_for_status r = Some (RequestException e))"
  shows "fetched E = Inr (PList [])"
  using assms unfolding fetched_def get_todays_ipos_def ipo_request_def Let_def by auto

lemma prepared_list:
  assumes "fetched E = Inr (PList xs)"
  shows "prepared E =
     bind_exn (filter_large_ipos xs) (\<lambda>q.
       case display_error (pylib E) q of
         Some e \<Rightarrow> Inl e
       | None \<Rightarrow>
           bind_exn (format_email_body (pylib E) (clock E 3) q) (\<lambda>body. Inr (q, body)))"
  using assms by (simp add: prepared_def)

lemma prepared_empty:
  assumes "fetched E = Inr (PList [])"
  shows "prepared E = Inr ([], empty_body (strftime_B_d_Y (clock E 3)))"
  using assms by (simp add: prepared_list filter_large_ipos_def format_email_body_def)

lemma prepared_rendered:
  assumes "fetched E = Inr (PList xs)" and "filter_large_ipos xs = Inr q"
    and "format_email_body (pylib E) (clock E 3) q = Inr body"
  shows "prepared E = Inr (q, body)"
  using assms display_error_rendered [OF assms(3)] by (simp add: prepared_list)

text \<open>
  Claim C6, amended. The exit status is 0 exactly when a mail was attempted and the session
  went through, and 1 otherwise. A failed request does not prevent the mail: after a
  \<^verbatim>\<open>RequestException\<close>, as after an empty calendar, \<^verbatim>\<open>main\<close> calls \<^verbatim>\<open>send_email\<close> once, with
  the document for a day without qualifying entries. Whenever the filter and
  \<^verbatim>\<open>format_email_body\<close> return, \<^verbatim>\<open>main\<close> calls \<^verbatim>\<open>send_email\<close> once with the document. An
  exception raised by the filter is not caught: no mail is attempted and the exit status is 1.
  When the relay rejects the credentials, the exit status is 1 and the two lines of guidance
  are printed, whatever the qualifying records are.
\<close>

theorem main_exit_status:
  "(fst (run_script E) = 0 \<longleftrightarrow>
      (\<exists>m. mail_attempts (snd (run_script E)) = [m] \<and> smtp_session E m = None)) \<and>
   (fst (run_script E) \<noteq> 0 \<longrightarrow> fst (run_script E) = 1) \<and>
   ((\<exists>e. ipo_request E (clock E 1) = Inl (RequestException e)) \<or>
    (\<exists>r e. ipo_request E (clock E 1) = Inr r \<and>
       raise_for_status r = Some (RequestException e)) \<or>
    fetched E = Inr (PList []) \<longrightarrow>
      mail_attempts (snd (run_script E)) =
        [alert_mail E [] (empty_body (strftime_B_d_Y (clock E 3)))]) \<and>
   (\<forall>xs q body. fetched E = Inr (PList xs) \<and> filter_large_ipos xs = Inr q \<and>
      format_email_body (pylib E) (clock E 3) q = Inr body \<longrightarrow>
      mail_attempts (snd (run_script E)) = [alert_mail E q body]) \<and>
   (\<forall>xs e. fetched E = Inr (PList xs) \<and> filter_large_ipos xs = Inl e \<longrightarrow>
      mail_attempts (snd (run_script E)) = [] \<and> fst (run_script E) = 1) \<and>
   (\<forall>m. mail_attempts (snd (run_script E)) = [m] \<and>
      smtp_session E m = Some AuthenticationFailed \<longrightarrow>
      fst (run_script E) = 1 \<and>
      set authentication_guidance \<subseteq> set (stdout (snd (run_script E))))"
proof -
  note rs = run_script_prepared [of E]
  have a: "fst (run_script E) = 0 \<longleftrightarrow>
      (\<exists>m. mail_attempts (snd (run_script E)) = [m] \<and> smtp_session E m = None)"
    using rs by (cases "prepared E") (auto split: prod.splits)
  have b: "fst (run_script E) \<noteq> 0 \<longrightarrow> fst (run_script E) = 1"
    using rs by (cases "prepared E") (auto split: prod.splits)
  have c: "(\<exists>e. ipo_request E (clock E 1) = Inl (RequestException e)) \<or>
    (\<exists>r e. ipo_request E (clock E 1) = Inr r \<and>
       raise_for_status r = Some (RequestException e)) \<or>
    fetched E = Inr (PList []) \<longrightarrow>
      mail_attempts (snd (run_script E)) =
        [alert_mail E [] (empty_body (strftime_B_d_Y (clock E 3)))]"
  proof
    assume "(\<exists>e. ipo_request E (clock E 1) = Inl (RequestException e)) \<or>
      (\<exists>r e. ipo_request E (clock E 1) = Inr r \<and>
         raise_for_status r = Some (RequestException e)) \<or>
      fetched E = Inr (PList [])"
    then have "fetched E = Inr (PList [])"
      using fetched_failure [of E] by blast
    then have "prepared E = Inr ([], empty_body (strftime_B_d_Y (clock E 3)))"
      by (rule prepared_empty)
    with rs show "mail_attempts (snd (run_script E)) =
        [alert_mail E [] (empty_body (strftime_B_d_Y (clock E 3)))]"
      by simp
  qed
  have d: "\<forall>xs q body. fetched E = Inr (PList xs) \<and> filter_large_ipos xs = Inr q \<and>
      format_email_body (pylib E) (clock E 3) q = Inr body \<longrightarrow>
      mail_attempts (snd (run_script E)) = [alert_mail E q body]"
  proof (intro allI impI)
    fix xs q body
    assume "fetched E = Inr (PList xs) \<and> filter_large_ipos xs = Inr q \<and>
      format_email_body (pylib E) (clock E 3) q = Inr body"
    then have "prepared E = Inr (q, body)"
      by (simp add: prepared_rendered)
    with rs show "mail_attempts (snd (run_script E)) = [alert_mail E q body]"
      by simp
  qed
  have e: "\<forall>xs e. fetched E = Inr (PList xs) \<and> filter_large_ipos xs = Inl e \<longrightarrow>
      mail_attempts (snd (run_script E)) = [] \<and> fst (run_script E) = 1"
  proof (intro allI impI)
    fix xs e
    assume "fetched E = Inr (PList xs) \<and> filter_large_ipos xs = Inl e"
    then have "prepared E = Inl e"
      by (simp add: prepared_list)
    with rs show "mail_attempts (snd (run_script E)) = [] \<and> fst (run_script E) = 1"
      by simp
  qed
  have f: "\<forall>m. mail_attempts (snd (run_script E)) = [m] \<and>
      smtp_session E m = Some AuthenticationFailed \<longrightarrow>
      fst (run_script E) = 1 \<and>
      set authentication_guidance \<subseteq> set (stdout (snd (run_script E)))"
  proof (intro allI impI)
    fix m
    assume m: "mail_attempts (snd (run_script E)) = [m] \<and>
      smtp_session E m = Some AuthenticationFailed"
    show "fst (run_script E) = 1 \<and>
      set authentication_guidance \<subseteq> set (stdout (snd (run_script E)))"
    proof (cases "prepared E")
      case (Inl e)
      with rs m show ?thesis by simp
    next
      case (Inr qb)
      obtain q body where "qb = (q, body)" by (cases qb)
      with Inr have p: "prepared E = Inr (q, body)" by simp
      with rs m have "m = alert_mail E q body" by simp
      with m have s: "smtp_session E (alert_mail E q body) = Some AuthenticationFailed" by simp
      from rs p s have "fst (run_script E) = 1" by simp
      moreover from rs p s
      have "set authentication_guidance \<subseteq> set (stdout (snd (run_script E)))" by blast
      ultimately show ?thesis by (rule conjI)
    qed
  qed
  show ?thesis
    by (rule conjI [OF a conjI [OF b conjI [OF c conjI [OF d conjI [OF e f]]]]])
qed

lemma fetched_calendar_reply:
  "fetched (example_env (calendar_reply ipos) relay) = Inr (PList ipos)"
  by (simp add: fetched_def get_todays_ipos_def example_env_def calendar_reply_def
      http_reply_def raise_for_status_def dict_get_def)

text \<open>
  Claim C6 as stated fails: \<^verbatim>\<open>main\<close> does not always call \<^verbatim>\<open>send_email\<close>. With a calendar
  entry whose value is a string the filter raises, and with a qualifying entry without
  \<^verbatim>\<open>numberOfShares\<close> the rendering raises; in both runs no mail is attempted, although the
  relay would accept it.
\<close>

theorem main_exit_status_counterexample:
  "mail_attempts (snd (run_script (example_env
      (calendar_reply [PDict [(''symbol'', PStr ''ACME''), (''totalSharesValue'', PStr ''TBD'')]])
      None))) = [] \<and>
   mail_attempts (snd (run_script (example_env
      (calendar_reply
         [PDict [(''symbol'', PStr ''ACME''), (''totalSharesValue'', PInt 300000000)]])
      None))) = []"
proof (rule conjI)
  let ?E = "example_env
      (calendar_reply [PDict [(''symbol'', PStr ''ACME''), (''totalSharesValue'', PStr ''TBD'')]])
      None"
  have "prepared ?E = Inl TypeError"
    by (simp add: prepared_list [OF fetched_calendar_reply] filter_large_ipos_def
        dict_get_def Let_def)
  then show "mail_attempts (snd (run_script ?E)) = []"
    using run_script_prepared [of ?E] by simp
next
  let ?E = "example_env
      (calendar_reply
         [PDict [(''symbol'', PStr ''ACME''), (''totalSharesValue'', PInt 300000000)]])
      None"
  have "prepared ?E = Inl ValueError"
    unfolding prepared_list [OF fetched_calendar_reply]
    by (simp add: filter_large_ipos_def dict_get_def Let_def MIN_OFFER_AMOUNT_def
        qualifying_record_def format_email_body_def format_row_def display_line_def
        example_env_def example_builtins_def within_digit_limit_def show_nat.simps)
  then show "mail_attempts (snd (run_script ?E)) = []"
    using run_script_prepared [of ?E] by simp
qed

text \<open>
  Claim C6, amended, at three runs: a request that times out with a relay that rejects the
  credentials, an empty calendar with a relay that accepts, and an entry on which the filter
  raises.
\<close>

theorem main_exit_status_witness:
  "fst (run_script (example_env (Inl (RequestException ''timed out''))
          (Some AuthenticationFailed))) = 1 \<and>
   set authentication_guidance \<subseteq>
     set (stdout (snd (run_script (example_env (Inl (RequestException ''timed out''))
          (Some AuthenticationFailed))))) \<and>
   fst (run_script (example_env (calendar_reply []) None)) = 0 \<and>
   fst (run_script (example_env
      (calendar_reply [PDict [(''symbol'', PStr ''ACME''), (''totalSharesValue'', PStr ''TBD'')]])
      None)) = 1"
proof -
  let ?E = "example_env (Inl (RequestException ''timed out'')) (Some AuthenticationFailed)"
  let ?m = "alert_mail ?E [] (empty_body (strftime_B_d_Y (clock ?E 3)))"
  have req: "ipo_request ?E (clock ?E 1) = Inl (RequestException ''timed out'')"
    by (simp add: ipo_request_def example_env_def)
  have relay: "smtp_session ?E ?m = Some AuthenticationFailed"
    by (simp add: example_env_def)
  note t = main_exit_status [of ?E]
  from t req have mails: "mail_attempts (snd (run_script ?E)) = [?m]"
    by blast
  from t mails relay have first: "fst (run_script ?E) = 1 \<and>
      set authentication_guidance \<subseteq> set (stdout (snd (run_script ?E)))"
    by blast
  let ?F = "example_env (calendar_reply []) None"
  let ?n = "alert_mail ?F [] (empty_body (strftime_B_d_Y (clock ?F 3)))"
  have "fetched ?F = Inr (PList [])"
    by (rule fetched_calendar_reply)
  with main_exit_status [of ?F] have "mail_attempts (snd (run_script ?F)) = [?n]"
    by blast
  moreover have "smtp_session ?F ?n = None"
    by (simp add: example_env_def)
  ultimately have second: "fst (run_script ?F) = 0"
    using main_exit_status [of ?F] by blast
  let ?G = "example_env
      (calendar_reply [PDict [(''symbol'', PStr ''ACME''), (''totalSharesValue'', PStr ''TBD'')]])
      None"
  have "fetched ?G =
      Inr (PList [PDict [(''symbol'', PStr ''ACME''), (''totalSharesValue'', PStr ''TBD'')]])"
    by (rule fetched_calendar_reply)
  moreover have "filter_large_ipos
      [PDict [(''symbol'', PStr ''ACME''), (''totalSharesValue'', PStr ''TBD'')]] = Inl TypeError"
    by (simp add: filter_large_ipos_def dict_get_def Let_def)
  ultimately have third: "fst (run_script ?G) = 1"
    using main_exit_status [of ?G] by blast
  from first second third show ?thesis
    by simp
qed

end
